theory Spec2Isabelle
  imports Complex_Main
begin

section \<open>Text helpers\<close>

text \<open>
  Text cells are modelled as ASCII strings. Python's \<open>str.strip()\<close> removes the
  characters for which \<open>str.isspace\<close> holds; in the ASCII range these are
  TAB, LF, VT, FF, CR, the separators FS, GS, RS, US and the space. The column
  operation \<open>str.strip_chars()\<close> removes the characters with the White_Space
  property; in the ASCII range these are TAB, LF, VT, FF, CR and the space.
\<close>

definition py_isspace :: "char \<Rightarrow> bool" where
  "py_isspace c = (let n = (of_char c :: nat) in (9 \<le> n \<and> n \<le> 13) \<or> (28 \<le> n \<and> n \<le> 32))"

definition is_whitespace :: "char \<Rightarrow> bool" where
  "is_whitespace c = (let n = (of_char c :: nat) in (9 \<le> n \<and> n \<le> 13) \<or> n = 32)"

definition trim :: "(char \<Rightarrow> bool) \<Rightarrow> string \<Rightarrow> string" where
  "trim P s = rev (dropWhile P (rev (dropWhile P s)))"

definition py_strip :: "string \<Rightarrow> string" where
  "py_strip s = trim py_isspace s"

definition strip_chars :: "string \<Rightarrow> string" where
  "strip_chars s = trim is_whitespace s"

definition lower_char :: "char \<Rightarrow> char" where
  "lower_char c = (let n = (of_char c :: nat) in if 65 \<le> n \<and> n \<le> 90 then char_of (n + 32) else c)"

definition to_lowercase :: "string \<Rightarrow> string" where
  "to_lowercase s = map lower_char s"

definition digit_char :: "nat \<Rightarrow> char" where
  "digit_char d = char_of (48 + d)"

fun nat_digits :: "nat \<Rightarrow> string" where
  "nat_digits n = (if n < 10 then [digit_char n] else nat_digits (n div 10) @ [digit_char (n mod 10)])"

definition int_to_text :: "int \<Rightarrow> string" where
  "int_to_text i = (if i < 0 then CHR ''-'' # nat_digits (nat (- i)) else nat_digits (nat i))"

text \<open>A string that neither begins nor ends with a character of the class \<open>P\<close>.\<close>

definition trimmed :: "(char \<Rightarrow> bool) \<Rightarrow> string \<Rightarrow> bool" where
  "trimmed P s = (s = [] \<or> (\<not> P (hd s) \<and> \<not> P (last s)))"

section \<open>Rows\<close>

text \<open>
  A data frame is a list of rows; a null cell is \<open>None\<close>. Float64 cells are
  idealised as real numbers. The \<open>age\<close> column is Int64 in the extracted frame
  and Utf8 after normalisation, so its cell carries either.
\<close>

datatype age_cell = AgeInt int | AgeText string

record flat_row =
  cart_id :: "int option"
  user_id :: "int option"
  cart_total :: "real option"
  cart_discounted_total :: "real option"
  cart_total_products :: "int option"
  cart_total_quantity :: "int option"
  product_id :: "int option"
  product_title :: "string option"
  product_price :: "real option"
  product_quantity :: "int option"
  product_total :: "real option"
  first_name :: "string option"
  last_name :: "string option"
  customer_name :: "string option"
  email :: "string option"
  city :: "string option"
  age :: "age_cell option"
  gender :: "string option"
  order_date :: "string option"

record normalized_row = flat_row +
  total_amount :: "real option"

section \<open>Normalizer: scripts/transform.py, clean_and_transform\<close>

text \<open>
  The input frame is the extracted frame (or an already normalised one, which has the
  column \<open>total_amount\<close> as well); the rows are typed, so the casts to Int64 and
  Float64 leave the cells as they are. The definitions of this section give the rows of
  the frame that the call returns; the frames on which the call raises are described
  with \<open>clean_and_transform_frame\<close> further down.
\<close>

definition fill_null :: "'a \<Rightarrow> 'a option \<Rightarrow> 'a option" where
  "fill_null d x = (case x of None \<Rightarrow> Some d | Some v \<Rightarrow> Some v)"

fun cast_utf8 :: "age_cell \<Rightarrow> string" where
  "cast_utf8 (AgeInt n) = int_to_text n"
| "cast_utf8 (AgeText s) = s"

text \<open>
  The first \<open>with_columns\<close>: trimming and imputation. Every expression reads the
  input row; \<open>map_elements\<close> skips null cells, so a null name stays null until
  \<open>fill_null\<close>.
\<close>

definition clean_columns :: "'a flat_row_scheme \<Rightarrow> 'a flat_row_scheme" where
  "clean_columns r = r
     \<lparr> product_title := map_option py_strip (product_title r),
       customer_name := fill_null ''No Data'' (map_option py_strip (customer_name r)),
       first_name := fill_null ''No Data'' (first_name r),
       last_name := fill_null ''No Data'' (last_name r),
       email := fill_null ''No Data'' (email r),
       city := fill_null ''No Data'' (city r),
       age := map_option AgeText (fill_null ''No Data'' (map_option cast_utf8 (age r))),
       gender := fill_null ''No Data'' (gender r) \<rparr>"

text \<open>Arithmetic on nullable cells: a null operand gives a null result.\<close>

definition mul_cells :: "real option \<Rightarrow> int option \<Rightarrow> real option" where
  "mul_cells p q = (case (p, q) of (Some x, Some n) \<Rightarrow> Some (x * real_of_int n) | _ \<Rightarrow> None)"

text \<open>
  \<open>when(is_null | == 0).then(price * quantity).otherwise(product_total)\<close>: for a null
  \<open>product_total\<close> the first disjunct is true, otherwise the comparison decides.
\<close>

definition compute_total :: "'a flat_row_scheme \<Rightarrow> real option" where
  "compute_total r =
     (if product_total r = None \<or> product_total r = Some 0
      then mul_cells (product_price r) (product_quantity r)
      else product_total r)"

text \<open>The column \<open>total_amount\<close> is added, or replaced when the frame already has it.\<close>

definition with_total_amount :: "'a flat_row_scheme \<Rightarrow> normalized_row" where
  "with_total_amount r = flat_row.extend (flat_row.truncate r) (normalized_row.fields (compute_total r))"

text \<open>The title is lower-cased and stripped once more.\<close>

definition standardize_title :: "normalized_row \<Rightarrow> normalized_row" where
  "standardize_title r = r \<lparr> product_title := map_option (strip_chars \<circ> to_lowercase) (product_title r) \<rparr>"

definition transform_row :: "'a flat_row_scheme \<Rightarrow> normalized_row" where
  "transform_row r = standardize_title (with_total_amount (clean_columns r))"

text \<open>The rows without \<open>product_id\<close> are dropped; the others keep their order.\<close>

definition clean_and_transform :: "'a flat_row_scheme list \<Rightarrow> normalized_row list" where
  "clean_and_transform df = filter (\<lambda>r. product_id r \<noteq> None) (map transform_row df)"

section \<open>Flattener: scripts/extract.py, extract_from_api\<close>

text \<open>
  The two payloads are the parsed JSON bodies returned by \<open>_fetch_json\<close>. A JSON
  object is an association list looked up by key; numbers are integers or (idealised)
  floats.
\<close>

datatype json =
    JNull
  | JBool bool
  | JInt int
  | JFloat real
  | JStr string
  | JArr "json list"
  | JObj "(string \<times> json) list"

text \<open>
  The exceptions of the Python code. \<open>FrameError\<close> stands for an exception that the
  data frame library raises while it builds or transforms a frame. \<open>OutsideSchema\<close> is
  not an exception: it marks a cell whose JSON type is not the one of the API schema (an
  identifier that is not an integer or null, a name that is not text or null, ...), where
  the behaviour of the data frame library's type inference and casts is not modelled.
\<close>

datatype error = AttributeError | KeyError | TypeError | OverflowError | FrameError | OutsideSchema

definition and_then :: "error + 'a \<Rightarrow> ('a \<Rightarrow> error + 'b) \<Rightarrow> error + 'b" where
  "and_then m f = (case m of Inl e \<Rightarrow> Inl e | Inr v \<Rightarrow> f v)"

text \<open>\<open>d.get(k, default)\<close>: only a dict has the method.\<close>

fun dict_get :: "json \<Rightarrow> string \<Rightarrow> json \<Rightarrow> error + json" where
  "dict_get (JObj kvs) k dflt = Inr (case map_of kvs k of None \<Rightarrow> dflt | Some v \<Rightarrow> v)"
| "dict_get _ k dflt = Inl AttributeError"

text \<open>\<open>d.get(k)\<close> on a value already known to be a dict.\<close>

definition get :: "(string \<times> json) list \<Rightarrow> string \<Rightarrow> json" where
  "get kvs k = (case map_of kvs k of None \<Rightarrow> JNull | Some v \<Rightarrow> v)"

fun obj_fields :: "json \<Rightarrow> error + (string \<times> json) list" where
  "obj_fields (JObj kvs) = Inr kvs"
| "obj_fields _ = Inl AttributeError"

text \<open>\<open>u[k]\<close>: a missing key raises KeyError, a non-dict raises TypeError.\<close>

fun subscript :: "json \<Rightarrow> string \<Rightarrow> error + json" where
  "subscript (JObj kvs) k = (case map_of kvs k of None \<Rightarrow> Inl KeyError | Some v \<Rightarrow> Inr v)"
| "subscript _ k = Inl TypeError"

text \<open>\<open>for x in v\<close>: a list gives its items, a dict its keys, a string its characters.\<close>

fun py_iter :: "json \<Rightarrow> error + json list" where
  "py_iter (JArr xs) = Inr xs"
| "py_iter (JObj kvs) = Inr (map (\<lambda>kv. JStr (fst kv)) kvs)"
| "py_iter (JStr s) = Inr (map (\<lambda>c. JStr [c]) s)"
| "py_iter _ = Inl TypeError"

fun truthy :: "json \<Rightarrow> bool" where
  "truthy JNull = False"
| "truthy (JBool b) = b"
| "truthy (JInt n) = (n \<noteq> 0)"
| "truthy (JFloat x) = (x \<noteq> 0)"
| "truthy (JStr s) = (s \<noteq> [])"
| "truthy (JArr xs) = (xs \<noteq> [])"
| "truthy (JObj kvs) = (kvs \<noteq> [])"

definition py_or :: "json \<Rightarrow> json \<Rightarrow> json" where
  "py_or a b = (if truthy a then a else b)"

text \<open>
  A dict key: lists and dicts are unhashable; numbers that compare equal
  (\<open>1\<close>, \<open>1.0\<close>, \<open>True\<close>) are the same key.
\<close>

fun dict_key :: "json \<Rightarrow> error + json" where
  "dict_key (JArr xs) = Inl TypeError"
| "dict_key (JObj kvs) = Inl TypeError"
| "dict_key (JBool b) = Inr (JInt (if b then 1 else 0))"
| "dict_key (JFloat x) = Inr (if x = of_int \<lfloor>x\<rfloor> then JInt \<lfloor>x\<rfloor> else JFloat x)"
| "dict_key v = Inr v"

text \<open>\<open>user_map = {u["id"]: u for u in users}\<close>; the newest entry is first, so it wins.\<close>

fun build_user_map :: "(json \<times> json) list \<Rightarrow> json list \<Rightarrow> error + (json \<times> json) list" where
  "build_user_map m [] = Inr m"
| "build_user_map m (u # us) =
     and_then (subscript u ''id'') (\<lambda>k.
     and_then (dict_key k) (\<lambda>k'.
     build_user_map ((k', u) # m) us))"

text \<open>The text of a name inside the f-string; only text (or the default \<open>""\<close>) is modelled.\<close>

fun name_text :: "json \<Rightarrow> error + string" where
  "name_text (JStr s) = Inr s"
| "name_text _ = Inl OutsideSchema"

definition no_user_columns :: "(string \<times> json) list" where
  "no_user_columns =
     [(''first_name'', JNull), (''last_name'', JNull), (''customer_name'', JNull),
      (''email'', JNull), (''city'', JNull), (''age'', JNull), (''gender'', JNull)]"

text \<open>The customer columns of a row: the branch \<open>if user: ... else: ...\<close>.\<close>

definition user_columns :: "json option \<Rightarrow> error + (string \<times> json) list" where
  "user_columns user =
     (case user of
        None \<Rightarrow> Inr no_user_columns
      | Some u \<Rightarrow>
          if truthy u then
            and_then (obj_fields u) (\<lambda>uf.
            let first = py_or (get uf ''firstName'') (JStr []);
                last = py_or (get uf ''lastName'') (JStr [])
            in
            and_then (name_text first) (\<lambda>f.
            and_then (name_text last) (\<lambda>l.
            and_then (obj_fields (py_or (get uf ''address'') (JObj []))) (\<lambda>addr.
            Inr [(''first_name'', first), (''last_name'', last),
                 (''customer_name'', JStr (py_strip (f @ '' '' @ l))),
                 (''email'', get uf ''email''), (''city'', get addr ''city''),
                 (''age'', get uf ''age''), (''gender'', get uf ''gender'')]))))
          else Inr no_user_columns)"

text \<open>The dict \<open>cart_base\<close> of a cart and the product cells added to it in \<open>row\<close>.\<close>

definition cart_columns :: "(string \<times> json) list \<Rightarrow> (string \<times> json) list" where
  "cart_columns cf =
     [(''cart_id'', get cf ''id''), (''user_id'', get cf ''userId''),
      (''cart_total'', get cf ''total''),
      (''cart_discounted_total'', get cf ''discountedTotal''),
      (''cart_total_products'', get cf ''totalProducts''),
      (''cart_total_quantity'', get cf ''totalQuantity'')]"

definition product_columns :: "(string \<times> json) list \<Rightarrow> (string \<times> json) list" where
  "product_columns pf =
     [(''product_id'', get pf ''id''), (''product_title'', get pf ''title''),
      (''product_price'', get pf ''price''), (''product_quantity'', get pf ''quantity''),
      (''product_total'', get pf ''total'')]"

text \<open>The inner loop \<open>for p in products\<close>: one row, a dict from column name to cell, per product.\<close>

fun flatten_products ::
  "(json \<times> json) list \<Rightarrow> (string \<times> json) list \<Rightarrow> json list \<Rightarrow> error + (string \<times> json) list list" where
  "flatten_products user_map cart_base [] = Inr []"
| "flatten_products user_map cart_base (p # ps) =
     and_then (obj_fields p) (\<lambda>pf.
     let row = cart_base @ product_columns pf in
     and_then (dict_key (get cart_base ''user_id'')) (\<lambda>k.
     and_then (user_columns (map_of user_map k)) (\<lambda>ucols.
     and_then (flatten_products user_map cart_base ps) (\<lambda>rest.
     Inr ((row @ ucols) # rest)))))"

text \<open>The outer loop \<open>for cart in carts\<close>.\<close>

fun flatten_carts :: "(json \<times> json) list \<Rightarrow> json list \<Rightarrow> error + (string \<times> json) list list" where
  "flatten_carts user_map [] = Inr []"
| "flatten_carts user_map (cart # carts) =
     and_then (obj_fields cart) (\<lambda>cf.
     let cart_base = cart_columns cf in
     and_then (py_iter (py_or (get cf ''products'') (JArr []))) (\<lambda>products.
     and_then (flatten_products user_map cart_base products) (\<lambda>rows.
     and_then (flatten_carts user_map carts) (\<lambda>rest.
     Inr (rows @ rest)))))"

text \<open>
  \<open>pl.DataFrame(rows)\<close> and the casts: a cell of the schema's type (or null) becomes
  a typed cell. An integer column is Int64, and the constructor raises on an integer
  outside its range. A JSON integer in a Float64 column is converted; one outside the
  Int64 range is not modelled there.
\<close>

definition in_int64 :: "int \<Rightarrow> bool" where
  "in_int64 n = (- (2 ^ 63) \<le> n \<and> n < 2 ^ 63)"

fun int_cell :: "json \<Rightarrow> error + int option" where
  "int_cell JNull = Inr None"
| "int_cell (JInt n) = (if in_int64 n then Inr (Some n) else Inl FrameError)"
| "int_cell _ = Inl OutsideSchema"

fun float_cell :: "json \<Rightarrow> error + real option" where
  "float_cell JNull = Inr None"
| "float_cell (JInt n) = (if in_int64 n then Inr (Some (real_of_int n)) else Inl OutsideSchema)"
| "float_cell (JFloat x) = Inr (Some x)"
| "float_cell _ = Inl OutsideSchema"

fun text_cell :: "json \<Rightarrow> error + string option" where
  "text_cell JNull = Inr None"
| "text_cell (JStr s) = Inr (Some s)"
| "text_cell _ = Inl OutsideSchema"

definition frame_row :: "(string \<times> json) list \<Rightarrow> error + flat_row" where
  "frame_row row =
     and_then (int_cell (get row ''cart_id'')) (\<lambda>c_id.
     and_then (int_cell (get row ''user_id'')) (\<lambda>u_id.
     and_then (float_cell (get row ''cart_total'')) (\<lambda>c_total.
     and_then (float_cell (get row ''cart_discounted_total'')) (\<lambda>c_disc.
     and_then (int_cell (get row ''cart_total_products'')) (\<lambda>c_prods.
     and_then (int_cell (get row ''cart_total_quantity'')) (\<lambda>c_qty.
     and_then (int_cell (get row ''product_id'')) (\<lambda>p_id.
     and_then (text_cell (get row ''product_title'')) (\<lambda>p_title.
     and_then (float_cell (get row ''product_price'')) (\<lambda>p_price.
     and_then (int_cell (get row ''product_quantity'')) (\<lambda>p_qty.
     and_then (float_cell (get row ''product_total'')) (\<lambda>p_total.
     and_then (text_cell (get row ''first_name'')) (\<lambda>first.
     and_then (text_cell (get row ''last_name'')) (\<lambda>last.
     and_then (text_cell (get row ''customer_name'')) (\<lambda>name.
     and_then (text_cell (get row ''email'')) (\<lambda>mail.
     and_then (text_cell (get row ''city'')) (\<lambda>cty.
     and_then (int_cell (get row ''age'')) (\<lambda>ag.
     and_then (text_cell (get row ''gender'')) (\<lambda>gen.
     Inr \<lparr> cart_id = c_id, user_id = u_id, cart_total = c_total,
           cart_discounted_total = c_disc, cart_total_products = c_prods,
           cart_total_quantity = c_qty, product_id = p_id, product_title = p_title,
           product_price = p_price, product_quantity = p_qty, product_total = p_total,
           first_name = first, last_name = last, customer_name = name, email = mail,
           city = cty, age = map_option AgeInt ag, gender = gen,
           order_date = None \<rparr>))))))))))))))))))"

fun typed_rows :: "(string \<times> json) list list \<Rightarrow> error + flat_row list" where
  "typed_rows [] = Inr []"
| "typed_rows (row # rows) =
     and_then (frame_row row) (\<lambda>r.
     and_then (typed_rows rows) (\<lambda>rs.
     Inr (r # rs)))"

text \<open>
  The constructor infers the type of each column from the first 100 rows
  (\<open>infer_schema_length\<close>). A column whose cells are all null there gets the type
  Null, and the constructor raises when a later row holds a value in that column.
\<close>

definition infer_schema_length :: nat where
  "infer_schema_length = 100"

definition column_names :: "string list" where
  "column_names =
     [''cart_id'', ''user_id'', ''cart_total'', ''cart_discounted_total'',
      ''cart_total_products'', ''cart_total_quantity'', ''product_id'', ''product_title'',
      ''product_price'', ''product_quantity'', ''product_total'', ''first_name'',
      ''last_name'', ''customer_name'', ''email'', ''city'', ''age'', ''gender'']"

definition null_column :: "(string \<times> json) list list \<Rightarrow> string \<Rightarrow> bool" where
  "null_column rows c = list_all (\<lambda>row. get row c = JNull) rows"

definition schema_fits :: "(string \<times> json) list list \<Rightarrow> bool" where
  "schema_fits rows =
     list_all (\<lambda>c. \<not> null_column (take infer_schema_length rows) c \<or> null_column rows c)
       column_names"

definition data_frame :: "(string \<times> json) list list \<Rightarrow> error + flat_row list" where
  "data_frame rows =
     and_then (typed_rows rows) (\<lambda>df.
     if schema_fits rows then Inr df else Inl FrameError)"

subsection \<open>Calendar dates\<close>

text \<open>
  A \<open>datetime.date\<close> is modelled by its proleptic Gregorian ordinal (\<open>date.toordinal()\<close>,
  day 1 is 0001-01-01), which is how the library subtracts a \<open>timedelta\<close>: the result
  must not fall before \<open>date.min\<close>. The conversion to year, month and day follows the
  library's \<open>_ord2ymd\<close>.
\<close>

type_synonym date = int

definition date_minus_days :: "date \<Rightarrow> nat \<Rightarrow> error + date" where
  "date_minus_days d k = (if d - int k < 1 then Inl OverflowError else Inr (d - int k))"

definition days_before_month :: "int \<Rightarrow> int" where
  "days_before_month m = [0, 0, 31, 59, 90, 120, 151, 181, 212, 243, 273, 304, 334] ! nat m"

definition days_in_month :: "int \<Rightarrow> int" where
  "days_in_month m = [0, 31, 28, 31, 30, 31, 30, 31, 31, 30, 31, 30, 31] ! nat m"

definition ord2ymd :: "date \<Rightarrow> int \<times> int \<times> int" where
  "ord2ymd n0 =
     (let n = n0 - 1;
          n400 = n div 146097; n = n mod 146097;
          n100 = n div 36524; n = n mod 36524;
          n4 = n div 1461; n = n mod 1461;
          n1 = n div 365; n = n mod 365;
          year = n400 * 400 + 1 + n100 * 100 + n4 * 4 + n1
      in if n1 = 4 \<or> n100 = 4 then (year - 1, 12, 31)
         else
           let leapyear = (n1 = 3 \<and> (n4 \<noteq> 24 \<or> n100 = 3));
               month = (n + 50) div 32;
               preceding = days_before_month month + (if month > 2 \<and> leapyear then 1 else 0)
           in if preceding > n
              then let month' = month - 1;
                       preceding' = preceding
                         - (days_in_month month' + (if month' = 2 \<and> leapyear then 1 else 0))
                   in (year, month', n - preceding' + 1)
              else (year, month, n - preceding + 1))"

definition zero_pad :: "nat \<Rightarrow> string \<Rightarrow> string" where
  "zero_pad w s = replicate (w - length s) CHR ''0'' @ s"

definition isoformat :: "date \<Rightarrow> string" where
  "isoformat d =
     (case ord2ymd d of (y, m, dd) \<Rightarrow>
        zero_pad 4 (int_to_text y) @ ''-'' @ zero_pad 2 (int_to_text m) @ ''-'' @ zero_pad 2 (int_to_text dd))"

subsection \<open>The synthetic order date\<close>

text \<open>
  \<open>sorted(unique_carts)\<close>: comparing \<open>None\<close> with anything raises TypeError, so a
  null identifier among at least two values fails; a single value needs no comparison.
\<close>

definition py_sorted :: "int option list \<Rightarrow> error + int option list" where
  "py_sorted xs =
     (if None \<in> set xs then (if 2 \<le> length xs then Inl TypeError else Inr xs)
      else Inr (map Some (sort [c. Some c \<leftarrow> xs])))"

text \<open>The loop \<open>for i, cid in enumerate(sorted(unique_carts))\<close> filling \<open>date_map\<close>.\<close>

fun build_date_map :: "date \<Rightarrow> nat \<Rightarrow> int option list \<Rightarrow> error + (int option \<times> string) list" where
  "build_date_map today i [] = Inr []"
| "build_date_map today i (cid # cids) =
     (let days_back = i mod 30 in
      and_then (date_minus_days today days_back) (\<lambda>d.
      and_then (build_date_map today (Suc i) cids) (\<lambda>m.
      Inr ((cid, isoformat d) # m))))"

text \<open>\<open>map_elements\<close> leaves a null cell null without calling the function.\<close>

definition map_elements :: "('a \<Rightarrow> 'b option) \<Rightarrow> 'a option \<Rightarrow> 'b option" where
  "map_elements f x = (case x of None \<Rightarrow> None | Some v \<Rightarrow> f v)"

text \<open>
  Lines 93 to 112: the date map and the \<open>with_columns\<close> that uses it. A
  \<open>product_title\<close> column without any text has the type Null, on which
  \<open>.str.to_lowercase()\<close> raises.
\<close>

definition add_order_date :: "date \<Rightarrow> flat_row list \<Rightarrow> error + flat_row list" where
  "add_order_date today df =
     and_then (py_sorted (remdups (map cart_id df))) (\<lambda>sorted_ids.
     and_then (build_date_map today 0 sorted_ids) (\<lambda>date_map.
     if list_all (\<lambda>r. product_title r = None) df then Inl FrameError
     else
       Inr (map (\<lambda>r. r \<lparr> order_date := map_elements (\<lambda>x. map_of date_map (Some x)) (cart_id r),
                            product_title := map_option (strip_chars \<circ> to_lowercase) (product_title r) \<rparr>)
                df)))"

text \<open>Lines 31 to 83: the user lookup and the two nested loops.\<close>

definition flatten_rows :: "json \<Rightarrow> json \<Rightarrow> error + (string \<times> json) list list" where
  "flatten_rows carts_payload users_payload =
     and_then (dict_get carts_payload ''carts'' (JArr [])) (\<lambda>carts.
     and_then (dict_get users_payload ''users'' (JArr [])) (\<lambda>users.
     and_then (py_iter users) (\<lambda>us.
     and_then (build_user_map [] us) (\<lambda>user_map.
     and_then (py_iter carts) (\<lambda>cs.
     flatten_carts user_map cs)))))"

definition extract_from_api :: "date \<Rightarrow> json \<Rightarrow> json \<Rightarrow> error + flat_row list" where
  "extract_from_api today carts_payload users_payload =
     and_then (flatten_rows carts_payload users_payload) (\<lambda>rows.
     if rows = [] then Inr []
     else and_then (data_frame rows) (\<lambda>df. add_order_date today df))"

text \<open>
  A raw row carries the customer cells that \<open>user_columns\<close> computes for the user
  found under the row's \<open>user_id\<close>.
\<close>

definition user_cells_of :: "(json \<times> json) list \<Rightarrow> (string \<times> json) list \<Rightarrow> bool" where
  "user_cells_of um row =
     (\<exists>k ucols. dict_key (get row ''user_id'') = Inr k
        \<and> user_columns (map_of um k) = Inr ucols
        \<and> get row ''first_name'' = get ucols ''first_name''
        \<and> get row ''last_name'' = get ucols ''last_name''
        \<and> get row ''customer_name'' = get ucols ''customer_name'')"

text \<open>The JSON value from which an identifier cell was read.\<close>

definition cell_json :: "int option \<Rightarrow> json" where
  "cell_json c = (case c of None \<Rightarrow> JNull | Some n \<Rightarrow> JInt n)"

text \<open>
  Following the words of the specification: the distinct cart identifiers present in the
  rows, sorted ascending. The position of an identifier in this list is its zero-based rank.
\<close>

definition spec_sorted_cart_ids :: "flat_row list \<Rightarrow> int list" where
  "spec_sorted_cart_ids rows = sort (remdups [c. Some c \<leftarrow> map cart_id rows])"

subsection \<open>Payloads of the API schema\<close>

text \<open>
  The payloads that the interface describes: every cart has an integer \<open>id\<close>, every
  user an integer \<open>id\<close>, and each other field is absent, null or of its type. These
  predicates describe inputs; the Flattener does not evaluate them.
\<close>

fun int_ok :: "json \<Rightarrow> bool" where
  "int_ok JNull = True"
| "int_ok (JInt n) = in_int64 n"
| "int_ok _ = False"

fun float_ok :: "json \<Rightarrow> bool" where
  "float_ok JNull = True"
| "float_ok (JInt n) = in_int64 n"
| "float_ok (JFloat x) = True"
| "float_ok _ = False"

fun text_ok :: "json \<Rightarrow> bool" where
  "text_ok JNull = True"
| "text_ok (JStr s) = True"
| "text_ok _ = False"

fun id_ok :: "json \<Rightarrow> bool" where
  "id_ok (JInt n) = in_int64 n"
| "id_ok _ = False"

fun valid_product :: "json \<Rightarrow> bool" where
  "valid_product (JObj pf) =
     (int_ok (get pf ''id'') \<and> text_ok (get pf ''title'') \<and> float_ok (get pf ''price'')
      \<and> int_ok (get pf ''quantity'') \<and> float_ok (get pf ''total''))"
| "valid_product _ = False"

fun products_ok :: "json \<Rightarrow> bool" where
  "products_ok JNull = True"
| "products_ok (JArr ps) = list_all valid_product ps"
| "products_ok _ = False"

fun valid_cart :: "json \<Rightarrow> bool" where
  "valid_cart (JObj cf) =
     (id_ok (get cf ''id'') \<and> int_ok (get cf ''userId'') \<and> float_ok (get cf ''total'')
      \<and> float_ok (get cf ''discountedTotal'') \<and> int_ok (get cf ''totalProducts'')
      \<and> int_ok (get cf ''totalQuantity'') \<and> products_ok (get cf ''products''))"
| "valid_cart _ = False"

fun address_ok :: "json \<Rightarrow> bool" where
  "address_ok JNull = True"
| "address_ok (JObj a) = text_ok (get a ''city'')"
| "address_ok _ = False"

fun valid_user :: "json \<Rightarrow> bool" where
  "valid_user (JObj uf) =
     (id_ok (get uf ''id'') \<and> text_ok (get uf ''firstName'') \<and> text_ok (get uf ''lastName'')
      \<and> text_ok (get uf ''email'') \<and> address_ok (get uf ''address'')
      \<and> int_ok (get uf ''age'') \<and> text_ok (get uf ''gender''))"
| "valid_user _ = False"

fun collection_ok :: "(json \<Rightarrow> bool) \<Rightarrow> string \<Rightarrow> json \<Rightarrow> bool" where
  "collection_ok P k (JObj kvs) =
     (case map_of kvs k of None \<Rightarrow> True | Some (JArr xs) \<Rightarrow> list_all P xs | Some _ \<Rightarrow> False)"
| "collection_ok P k _ = False"

definition valid_payloads :: "json \<Rightarrow> json \<Rightarrow> bool" where
  "valid_payloads carts_payload users_payload =
     (collection_ok valid_cart ''carts'' carts_payload
      \<and> collection_ok valid_user ''users'' users_payload)"

text \<open>The cells of a raw row are of the types of their columns, the cart identifier not null.\<close>

definition row_ok :: "(string \<times> json) list \<Rightarrow> bool" where
  "row_ok row =
     (id_ok (get row ''cart_id'')
      \<and> list_all (\<lambda>c. int_ok (get row c))
            [''cart_id'', ''user_id'', ''cart_total_products'', ''cart_total_quantity'',
             ''product_id'', ''product_quantity'', ''age'']
      \<and> list_all (\<lambda>c. float_ok (get row c))
            [''cart_total'', ''cart_discounted_total'', ''product_price'', ''product_total'']
      \<and> list_all (\<lambda>c. text_ok (get row c))
            [''product_title'', ''first_name'', ''last_name'', ''customer_name'', ''email'',
             ''city'', ''gender''])"

definition ucols_ok :: "(string \<times> json) list \<Rightarrow> bool" where
  "ucols_ok ucols =
     (map fst ucols = [''first_name'', ''last_name'', ''customer_name'', ''email'', ''city'',
                       ''age'', ''gender'']
      \<and> text_ok (get ucols ''first_name'') \<and> text_ok (get ucols ''last_name'')
      \<and> text_ok (get ucols ''customer_name'') \<and> text_ok (get ucols ''email'')
      \<and> text_ok (get ucols ''city'') \<and> int_ok (get ucols ''age'')
      \<and> text_ok (get ucols ''gender''))"

section \<open>Normalizer: the call on a frame\<close>

text \<open>
  The two \<open>map_elements\<close> of \<open>clean_and_transform\<close> (on \<open>product_title\<close> and on
  \<open>customer_name\<close>) have no \<open>return_dtype\<close>: the library takes the type of the
  result from the first value that the function returns, and raises when the function is
  never called, which is the case when the column has no cell that is not null (a frame
  without rows, or without columns, among them). Otherwise the call returns the rows
  that \<open>clean_and_transform\<close> above computes.
\<close>

definition clean_and_transform_frame :: "'a flat_row_scheme list \<Rightarrow> error + normalized_row list" where
  "clean_and_transform_frame df =
     (if list_all (\<lambda>r. product_title r = None) df \<or> list_all (\<lambda>r. customer_name r = None) df
      then Inl FrameError
      else Inr (clean_and_transform df))"

text \<open>
  Following the words of the specification: the group of a summary row is given by the
  customer identifier and the customer name after the substitution of \<open>"No Data"\<close>.
\<close>

definition spec_summary_key :: "normalized_row \<Rightarrow> int option \<times> string" where
  "spec_summary_key r =
     (user_id r, case customer_name r of None \<Rightarrow> ''No Data''
                 | Some s \<Rightarrow> if s = [] then ''No Data'' else s)"

section \<open>Aggregator: scripts/transform.py, write_analytics\<close>

text \<open>
  \<open>str.strptime(pl.Date, "%Y-%m-%d", strict=False)\<close> turns a string that does not
  parse into a null instead of raising. The parser belongs to the data frame library, so
  the queries take it as the parameter \<open>strptime\<close>; \<open>strptime_ymd\<close> below is the
  format on zero-padded input, used to run the queries on concrete rows.
\<close>

definition parsed_order_date :: "(string \<Rightarrow> 'd option) \<Rightarrow> normalized_row \<Rightarrow> 'd option" where
  "parsed_order_date strptime r = (case order_date r of None \<Rightarrow> None | Some s \<Rightarrow> strptime s)"

text \<open>
  The SQL aggregates: \<open>SUM\<close> skips nulls and is null when nothing is left;
  \<open>COUNT(DISTINCT x)\<close> counts the distinct non-null values; \<open>GROUP BY\<close> puts the
  rows with equal keys together, nulls forming a group of their own.
\<close>

definition sql_sum :: "real option list \<Rightarrow> real option" where
  "sql_sum xs = (case [x. Some x \<leftarrow> xs] of [] \<Rightarrow> None | y # ys \<Rightarrow> Some (sum_list (y # ys)))"

definition count_distinct :: "int option list \<Rightarrow> nat" where
  "count_distinct xs = length (remdups [c. Some c \<leftarrow> xs])"

definition group_by :: "('r \<Rightarrow> 'k) \<Rightarrow> 'r list \<Rightarrow> ('k \<times> 'r list) list" where
  "group_by key rows = map (\<lambda>k. (k, filter (\<lambda>r. key r = k) rows)) (remdups (map key rows))"

text \<open>
  \<open>ORDER BY x DESC\<close> and \<open>ORDER BY x\<close>: the engine's default puts the nulls last in
  both directions. The order among equal keys is the engine's; the model keeps the
  order of the groups.
\<close>

definition order_by_desc :: "('a \<Rightarrow> real option) \<Rightarrow> 'a list \<Rightarrow> 'a list" where
  "order_by_desc f xs =
     sort_key (\<lambda>x. case f x of Some v \<Rightarrow> - v | None \<Rightarrow> 0) (filter (\<lambda>x. f x \<noteq> None) xs)
     @ filter (\<lambda>x. f x = None) xs"

definition order_by_asc :: "('d::linorder option \<times> 'b) list \<Rightarrow> ('d option \<times> 'b) list" where
  "order_by_asc xs =
     map (\<lambda>(k, v). (Some k, v)) (sort_key fst [(k, v). (Some k, v) \<leftarrow> xs])
     @ filter (\<lambda>kv. fst kv = None) xs"

definition revenue_by_product :: "normalized_row list \<Rightarrow> (string option \<times> real option) list" where
  "revenue_by_product sales =
     order_by_desc snd
       (map (\<lambda>(title, g). (title, sql_sum (map total_amount g))) (group_by product_title sales))"

record summary_row =
  customer_id :: "int option"
  customer_name_out :: string
  total_orders :: nat
  total_spent :: "real option"

text \<open>
  In \<open>GROUP BY customer_id, customer_name\<close> the name \<open>customer_id\<close> is only an
  output alias, so it stands for \<open>user_id\<close>; \<open>customer_name\<close> is also a column of
  \<open>sales\<close>, and a name in GROUP BY refers to the input column before any output alias.
  The groups are therefore formed on the stored name, and the \<open>CASE\<close> expression
  renders the name of each group.
\<close>

definition display_name :: "string option \<Rightarrow> string" where
  "display_name nm = (case nm of None \<Rightarrow> ''No Data'' | Some s \<Rightarrow> if s = [] then ''No Data'' else s)"

definition customer_summary :: "normalized_row list \<Rightarrow> summary_row list" where
  "customer_summary sales =
     order_by_desc total_spent
       (map (\<lambda>(k, g). \<lparr> customer_id = fst k, customer_name_out = display_name (snd k),
                         total_orders = count_distinct (map cart_id g),
                         total_spent = sql_sum (map total_amount g) \<rparr>)
            (group_by (\<lambda>r. (user_id r, customer_name r)) sales))"

definition daily_sales :: "(string \<Rightarrow> 'd::linorder option) \<Rightarrow> normalized_row list \<Rightarrow> ('d option \<times> real option) list" where
  "daily_sales strptime sales =
     order_by_asc
       (map (\<lambda>(d, g). (d, sql_sum (map total_amount g))) (group_by (parsed_order_date strptime) sales))"

definition write_analytics ::
  "(string \<Rightarrow> 'd::linorder option) \<Rightarrow> normalized_row list \<Rightarrow>
     (string option \<times> real option) list \<times> summary_row list \<times> ('d option \<times> real option) list" where
  "write_analytics strptime df = (revenue_by_product df, customer_summary df, daily_sales strptime df)"

subsection \<open>The date format on zero-padded input\<close>

definition digit_val :: "char \<Rightarrow> int option" where
  "digit_val c = (let n = (of_char c :: nat) in if 48 \<le> n \<and> n \<le> 57 then Some (int n - 48) else None)"

fun number :: "int \<Rightarrow> string \<Rightarrow> int option" where
  "number acc [] = Some acc"
| "number acc (c # cs) = (case digit_val c of None \<Rightarrow> None | Some d \<Rightarrow> number (acc * 10 + d) cs)"

definition is_leap :: "int \<Rightarrow> bool" where
  "is_leap y = (y mod 4 = 0 \<and> (y mod 100 \<noteq> 0 \<or> y mod 400 = 0))"

definition ymd2ord :: "int \<Rightarrow> int \<Rightarrow> int \<Rightarrow> date" where
  "ymd2ord y m d =
     (let y' = y - 1 in y' * 365 + y' div 4 - y' div 100 + y' div 400)
     + days_before_month m + (if m > 2 \<and> is_leap y then 1 else 0) + d"

definition strptime_ymd :: "string \<Rightarrow> date option" where
  "strptime_ymd s =
     (if length s = 10 \<and> s ! 4 = CHR ''-'' \<and> s ! 7 = CHR ''-'' then
        (case (number 0 (take 4 s), number 0 (take 2 (drop 5 s)), number 0 (drop 8 s)) of
           (Some y, Some m, Some d) \<Rightarrow>
             if 1 \<le> y \<and> 1 \<le> m \<and> m \<le> 12 \<and> 1 \<le> d
                \<and> d \<le> days_in_month m + (if m = 2 \<and> is_leap y then 1 else 0)
             then Some (ymd2ord y m d) else None
         | _ \<Rightarrow> None)
      else None)"

section \<open>Example inputs\<close>

text \<open>A row as the Flattener produces it; the examples below vary its cells.\<close>

definition shirt_row :: flat_row where
  "shirt_row =
     \<lparr> cart_id = Some 1, user_id = Some 10, cart_total = Some 40,
       cart_discounted_total = Some 36, cart_total_products = Some 1,
       cart_total_quantity = Some 2, product_id = Some 100,
       product_title = Some '' Shirt '', product_price = Some 20,
       product_quantity = Some 2, product_total = Some 0,
       first_name = Some ''Jo'', last_name = Some ''Doe'', customer_name = Some ''Jo Doe'',
       email = None, city = None, age = Some (AgeInt 31), gender = None,
       order_date = Some ''2024-11-04'' \<rparr>"

text \<open>A product entry without \<open>price\<close> and \<open>total\<close>: both cells are null.\<close>

definition no_price_row :: flat_row where
  "no_price_row = shirt_row \<lparr> product_price := None, product_total := None \<rparr>"

text \<open>A product entry without \<open>id\<close>.\<close>

definition no_product_id_row :: flat_row where
  "no_product_id_row = shirt_row \<lparr> product_id := None, product_title := Some ''Ghost'' \<rparr>"

definition hat_row :: flat_row where
  "hat_row = shirt_row \<lparr> product_id := Some 101, product_title := Some ''HAT'',
                          product_price := Some 5, product_quantity := Some 3,
                          product_total := Some 12 \<rparr>"

text \<open>A row whose customer name consists of blanks only.\<close>

definition blank_name_row :: flat_row where
  "blank_name_row = shirt_row \<lparr> first_name := Some '''', last_name := Some '''',
                                 customer_name := Some ''   '' \<rparr>"

text \<open>A users payload with one complete user and one user without names.\<close>

definition user_10 :: json where
  "user_10 =
     JObj [(''id'', JInt 10), (''firstName'', JStr ''Jo''), (''lastName'', JStr ''Doe''),
           (''email'', JStr ''jo@example.com''),
           (''address'', JObj [(''city'', JStr ''Pune'')]),
           (''age'', JInt 31), (''gender'', JStr ''female'')]"

definition user_11 :: json where
  "user_11 = JObj [(''id'', JInt 11), (''email'', JStr ''anon@example.com'')]"

definition users_example :: json where
  "users_example =
     JObj [(''users'', JArr [user_10, user_11]),
           (''total'', JInt 2), (''skip'', JInt 0), (''limit'', JInt 100)]"

text \<open>A carts payload without the \<open>carts\<close> key.\<close>

definition carts_without_key :: json where
  "carts_without_key = JObj [(''total'', JInt 0), (''skip'', JInt 0), (''limit'', JInt 100)]"

definition product_json :: "int \<Rightarrow> string \<Rightarrow> json" where
  "product_json pid title =
     JObj [(''id'', JInt pid), (''title'', JStr title), (''price'', JInt 20),
           (''quantity'', JInt 2), (''total'', JInt 40)]"

definition cart_json :: "int \<Rightarrow> int \<Rightarrow> json list \<Rightarrow> json" where
  "cart_json cid uid products =
     JObj [(''id'', JInt cid), (''userId'', JInt uid), (''total'', JInt 40),
           (''products'', JArr products)]"

text \<open>Carts fetched in the order 5, 1, 3; user 10 is known, user 99 is not.\<close>

definition carts_513 :: json where
  "carts_513 =
     JObj [(''carts'', JArr [cart_json 5 10 [product_json 100 '' Shirt ''],
                             cart_json 1 99 [product_json 101 ''Hat''],
                             cart_json 3 11 [product_json 102 ''Sock'']])]"

text \<open>The rows extracted from \<open>carts_513\<close> and \<open>users_example\<close> on 2024-11-04 (ordinal 739194).\<close>

definition row_cart5 :: flat_row where
  "row_cart5 =
     \<lparr> cart_id = Some 5, user_id = Some 10, cart_total = Some 40,
       cart_discounted_total = None, cart_total_products = None,
       cart_total_quantity = None, product_id = Some 100,
       product_title = Some ''shirt'', product_price = Some 20,
       product_quantity = Some 2, product_total = Some 40,
       first_name = Some ''Jo'', last_name = Some ''Doe'', customer_name = Some ''Jo Doe'',
       email = Some ''jo@example.com'', city = Some ''Pune'', age = Some (AgeInt 31),
       gender = Some ''female'', order_date = Some ''2024-11-02'' \<rparr>"

definition row_cart1 :: flat_row where
  "row_cart1 =
     \<lparr> cart_id = Some 1, user_id = Some 99, cart_total = Some 40,
       cart_discounted_total = None, cart_total_products = None,
       cart_total_quantity = None, product_id = Some 101,
       product_title = Some ''hat'', product_price = Some 20,
       product_quantity = Some 2, product_total = Some 40,
       first_name = None, last_name = None, customer_name = None,
       email = None, city = None, age = None,
       gender = None, order_date = Some ''2024-11-04'' \<rparr>"

definition row_cart3 :: flat_row where
  "row_cart3 =
     \<lparr> cart_id = Some 3, user_id = Some 11, cart_total = Some 40,
       cart_discounted_total = None, cart_total_products = None,
       cart_total_quantity = None, product_id = Some 102,
       product_title = Some ''sock'', product_price = Some 20,
       product_quantity = Some 2, product_total = Some 40,
       first_name = Some '''', last_name = Some '''', customer_name = Some '''',
       email = Some ''anon@example.com'', city = None, age = None,
       gender = None, order_date = Some ''2024-11-03'' \<rparr>"

text \<open>A row whose \<open>order_date\<close> is not in the format \<open>%Y-%m-%d\<close>.\<close>

definition bad_date_row :: flat_row where
  "bad_date_row = hat_row \<lparr> cart_id := Some 2, order_date := Some ''04/11/2024'' \<rparr>"

text \<open>The same customer identifier as \<open>blank_name_row\<close>, with a null name, in another cart.\<close>

definition null_name_row :: flat_row where
  "null_name_row = hat_row \<lparr> cart_id := Some 2, first_name := None, last_name := None,
                             customer_name := None \<rparr>"

text \<open>One cart with three products, and a cart of another customer.\<close>

definition sock_row :: flat_row where
  "sock_row = shirt_row \<lparr> product_id := Some 102, product_title := Some ''Sock'',
                           product_price := Some 4, product_total := Some 8 \<rparr>"

definition two_customers :: "flat_row list" where
  "two_customers = [row_cart3, shirt_row, hat_row, sock_row]"

text \<open>A cart without products before a cart with one product.\<close>

definition carts_gap :: json where
  "carts_gap =
     JObj [(''carts'', JArr [cart_json 1 10 [], cart_json 2 10 [product_json 100 '' Shirt '']])]"

definition row_cart2 :: flat_row where
  "row_cart2 = row_cart5 \<lparr> cart_id := Some 2, order_date := Some ''2024-11-04'' \<rparr>"

text \<open>A frame of thirty-two carts, in descending order of their identifiers 32, ..., 1.\<close>

definition frame_32 :: "flat_row list" where
  "frame_32 =
     map (\<lambda>c. row_cart5 \<lparr> cart_id := Some c, product_title := Some '' Shirt '',
                             order_date := None \<rparr>)
         (rev [1..32])"

definition rows_32 :: "flat_row list" where
  "rows_32 =
     map (\<lambda>c. row_cart5 \<lparr> cart_id := Some c,
                             order_date := Some (isoformat (739194 - (c - 1) mod 30)) \<rparr>)
         (rev [1..32])"

text \<open>A user with a last name only, and a cart of that user.\<close>

definition user_12 :: json where
  "user_12 = JObj [(''id'', JInt 12), (''lastName'', JStr ''Roe'')]"

definition users_three :: json where
  "users_three = JObj [(''users'', JArr [user_10, user_11, user_12])]"

definition carts_roe :: json where
  "carts_roe = JObj [(''carts'', JArr [cart_json 7 12 [product_json 103 ''Cap'']])]"

definition row_cart7 :: flat_row where
  "row_cart7 =
     row_cart5 \<lparr> cart_id := Some 7, user_id := Some 12, product_id := Some 103,
                 product_title := Some ''cap'', first_name := Some '''',
                 last_name := Some ''Roe'', customer_name := Some ''Roe'',
                 email := None, city := None, age := None, gender := None,
                 order_date := Some ''2024-11-04'' \<rparr>"


text \<open>
  Four carts of three customers: cart 1 holds three products, carts 1 and 2 belong to
  user 10, user 11 has no names, user 99 is not in the users payload.
\<close>

definition carts_orders :: json where
  "carts_orders =
     JObj [(''carts'', JArr
       [cart_json 1 10 [product_json 100 '' Shirt '', product_json 101 ''Hat'', product_json 102 ''Sock''],
        cart_json 2 10 [product_json 100 '' Shirt ''],
        cart_json 3 11 [product_json 102 ''Sock''],
        cart_json 4 99 [product_json 101 ''Hat'']])]"

definition rows_orders :: "flat_row list" where
  "rows_orders =
     [row_cart5 \<lparr> cart_id := Some 1, order_date := Some ''2024-11-04'' \<rparr>,
      row_cart5 \<lparr> cart_id := Some 1, product_id := Some 101, product_title := Some ''hat'',
                  order_date := Some ''2024-11-04'' \<rparr>,
      row_cart5 \<lparr> cart_id := Some 1, product_id := Some 102, product_title := Some ''sock'',
                  order_date := Some ''2024-11-04'' \<rparr>,
      row_cart5 \<lparr> cart_id := Some 2, order_date := Some ''2024-11-03'' \<rparr>,
      row_cart3 \<lparr> order_date := Some ''2024-11-02'' \<rparr>,
      row_cart1 \<lparr> cart_id := Some 4, order_date := Some ''2024-11-01'' \<rparr>]"

section \<open>Properties of the text helpers\<close>

lemma last_dropWhile: "dropWhile P xs \<noteq> [] \<Longrightarrow> last (dropWhile P xs) = last xs"
  by (induction xs) (auto split: if_splits)

lemma dropWhile_nonempty: "dropWhile P xs \<noteq> [] \<Longrightarrow> xs \<noteq> []"
  by (cases xs) simp_all

lemma trimmed_trim: "trimmed P (trim P s)"
proof (cases "dropWhile P (rev (dropWhile P s)) = []")
  case True
  then show ?thesis by (simp add: trimmed_def trim_def)
next
  case False
  define t where "t = dropWhile P s"
  define u where "u = dropWhile P (rev t)"
  from False have une: "u \<noteq> []" by (simp add: u_def t_def)
  then have "rev t \<noteq> []" unfolding u_def by (rule dropWhile_nonempty)
  then have tne: "t \<noteq> []" by simp
  from une have a: "\<not> P (hd u)" unfolding u_def by (rule hd_dropWhile)
  from tne have b: "\<not> P (hd t)" unfolding t_def by (rule hd_dropWhile)
  from une have "last u = last (rev t)" unfolding u_def by (rule last_dropWhile)
  also from tne have "\<dots> = hd t" by (simp add: last_rev)
  finally have c: "last u = hd t" .
  from une have "hd (rev u) = last u" by (simp add: hd_rev)
  with c b have d: "\<not> P (hd (rev u))" by simp
  from une have "last (rev u) = hd u" by (simp add: last_rev)
  with a have e: "\<not> P (last (rev u))" by simp
  have "trim P s = rev u" by (simp add: trim_def u_def t_def)
  with d e show ?thesis by (simp add: trimmed_def)
qed

lemma dropWhile_hd_id: "xs \<noteq> [] \<Longrightarrow> \<not> P (hd xs) \<Longrightarrow> dropWhile P xs = xs"
  by (cases xs) simp_all

lemma trim_trimmed: "trimmed P s \<Longrightarrow> trim P s = s"
proof (cases "s = []")
  case True
  then show ?thesis by (simp add: trim_def)
next
  case False
  assume "trimmed P s"
  with False have h: "\<not> P (hd s)" and l: "\<not> P (last s)" by (simp_all add: trimmed_def)
  from False h have 1: "dropWhile P s = s" by (rule dropWhile_hd_id)
  from False have "hd (rev s) = last s" by (simp add: hd_rev)
  with l have "\<not> P (hd (rev s))" by simp
  with False have 2: "dropWhile P (rev s) = rev s" by (simp add: dropWhile_hd_id)
  from 1 2 show ?thesis by (simp add: trim_def)
qed








lemma py_strip_idem: "py_strip (py_strip s) = py_strip s"
  by (simp add: py_strip_def trim_trimmed trimmed_trim)





section \<open>Properties of the Normalizer\<close>

lemmas row_defs = transform_row_def standardize_title_def with_total_amount_def clean_columns_def
  flat_row.defs normalized_row.defs






lemma product_id_transform_row: "product_id (transform_row r) = product_id r"
  by (simp add: row_defs)

lemma total_amount_transform_row: "total_amount (transform_row r) = compute_total r"
  by (simp add: row_defs compute_total_def)

lemma customer_name_transform_row:
  "customer_name (transform_row r) = fill_null ''No Data'' (map_option py_strip (customer_name r))"
  by (simp add: row_defs)

lemma names_transform_row:
  "first_name (transform_row r) = fill_null ''No Data'' (first_name r)"
  "last_name (transform_row r) = fill_null ''No Data'' (last_name r)"
  by (simp_all add: row_defs)

lemma amounts_transform_row:
  "product_total (transform_row r) = product_total r"
  "product_price (transform_row r) = product_price r"
  "product_quantity (transform_row r) = product_quantity r"
  by (simp_all add: row_defs)

lemma clean_and_transform_filter:
  "clean_and_transform df = map transform_row (filter (\<lambda>r. product_id r \<noteq> None) df)"
  by (induction df) (simp_all add: clean_and_transform_def product_id_transform_row)

section \<open>Claims about the Normalizer\<close>

text \<open>
  Claim C8. The output of the Normalizer is the transformed input with the rows of null
  \<open>product_id\<close> left out: the kept rows stay in their input order, no output row has
  a null \<open>product_id\<close>, and dropping a row is not an error (the function is total).
\<close>

theorem clean_and_transform_product_id:
  "clean_and_transform df = map transform_row (filter (\<lambda>r. product_id r \<noteq> None) df)
   \<and> map product_id (clean_and_transform df) = filter (\<lambda>p. p \<noteq> None) (map product_id df)
   \<and> None \<notin> set (map product_id (clean_and_transform df))"
proof -
  have a: "clean_and_transform df = map transform_row (filter (\<lambda>r. product_id r \<noteq> None) df)"
    by (rule clean_and_transform_filter)
  have b: "map product_id (clean_and_transform df) = filter (\<lambda>p. p \<noteq> None) (map product_id df)"
    unfolding a by (induction df) (simp_all add: product_id_transform_row)
  have c: "None \<notin> set (map product_id (clean_and_transform df))"
    unfolding b by simp
  from a b c show ?thesis by simp
qed

theorem clean_and_transform_product_id_witness:
  "map product_id (clean_and_transform [shirt_row, no_product_id_row, hat_row]) = [Some 100, Some 101]
   \<and> map product_title (clean_and_transform [shirt_row, no_product_id_row, hat_row]) = [Some ''shirt'', Some ''hat'']"
proof -
  have pids: "product_id shirt_row = Some 100" "product_id no_product_id_row = None"
    "product_id hat_row = Some 101"
    by (simp_all add: shirt_row_def no_product_id_row_def hat_row_def)
  have titles: "map product_title (map transform_row [shirt_row, hat_row]) = [Some ''shirt'', Some ''hat'']"
    by code_simp
  from clean_and_transform_product_id [of "[shirt_row, no_product_id_row, hat_row]"]
  have "clean_and_transform [shirt_row, no_product_id_row, hat_row] = map transform_row [shirt_row, hat_row]"
    and "map product_id (clean_and_transform [shirt_row, no_product_id_row, hat_row]) = [Some 100, Some 101]"
    by (simp_all add: pids product_id_transform_row)
  with titles show ?thesis by simp
qed



text \<open>
  Claim C6. For every row that the Normalizer keeps, \<open>total_amount\<close> is the product
  \<open>product_price \<times> product_quantity\<close> when \<open>product_total\<close> is null or zero, and
  \<open>product_total\<close> otherwise. The product of nullable cells is the product of the
  values, null when an operand is null.
\<close>

theorem total_amount_rule:
  "map total_amount (clean_and_transform df) =
     map (\<lambda>r. if product_total r = None \<or> product_total r = Some 0
               then mul_cells (product_price r) (product_quantity r)
               else product_total r)
         (filter (\<lambda>r. product_id r \<noteq> None) df)
   \<and> mul_cells (Some p) (Some q) = Some (p * real_of_int q)
   \<and> mul_cells None cq = None \<and> mul_cells cp None = None"
proof -
  have "map total_amount (clean_and_transform df) =
     map compute_total (filter (\<lambda>r. product_id r \<noteq> None) df)"
    by (simp add: clean_and_transform_filter comp_def total_amount_transform_row)
  moreover have "mul_cells cp None = None"
    by (cases cp) (simp_all add: mul_cells_def)
  ultimately show ?thesis
    by (simp add: compute_total_def mul_cells_def)
qed

theorem total_amount_rule_witness:
  "map total_amount (clean_and_transform [shirt_row, hat_row]) = [Some 40, Some 12]"
  using total_amount_rule [of "[shirt_row, hat_row]"]
  by (simp add: shirt_row_def hat_row_def mul_cells_def)

text \<open>
  Claim C3 as stated (\<open>total_amount\<close> is never null) fails: a product entry without
  price and total gives a null \<open>total_amount\<close>.
\<close>

theorem total_amount_null_counterexample:
  "map total_amount (clean_and_transform [no_price_row]) = [None]"
  by (simp add: clean_and_transform_filter total_amount_transform_row compute_total_def
      mul_cells_def no_price_row_def shirt_row_def)

text \<open>
  Claim C3, amended. In every output row of the Normalizer, \<open>total_amount\<close> is null
  exactly when \<open>product_total\<close> is null or zero and \<open>product_price\<close> or
  \<open>product_quantity\<close> is null; in every other combination it is non-null.
\<close>

theorem total_amount_null_iff:
  fixes df :: "'a flat_row_scheme list"
  assumes "r \<in> set (clean_and_transform df)"
  shows "(total_amount r = None) =
       ((product_total r = None \<or> product_total r = Some 0)
        \<and> (product_price r = None \<or> product_quantity r = None))"
proof -
  from assms obtain r0 :: "'a flat_row_scheme" where r: "r = transform_row r0"
    by (auto simp: clean_and_transform_filter)
  show ?thesis
    unfolding r total_amount_transform_row amounts_transform_row compute_total_def mul_cells_def
    by (auto split: option.splits)
qed

theorem total_amount_null_iff_witness:
  "transform_row shirt_row \<in> set (clean_and_transform [shirt_row, no_price_row])
   \<and> total_amount (transform_row shirt_row) \<noteq> None
   \<and> transform_row no_price_row \<in> set (clean_and_transform [shirt_row, no_price_row])
   \<and> total_amount (transform_row no_price_row) = None"
proof -
  have h1: "transform_row shirt_row \<in> set (clean_and_transform [shirt_row, no_price_row])"
    by (simp add: clean_and_transform_filter shirt_row_def no_price_row_def)
  have h2: "transform_row no_price_row \<in> set (clean_and_transform [shirt_row, no_price_row])"
    by (simp add: clean_and_transform_filter shirt_row_def no_price_row_def)
  from total_amount_null_iff [OF h1] total_amount_null_iff [OF h2] h1 h2 show ?thesis
    by (simp add: amounts_transform_row shirt_row_def no_price_row_def)
qed

section \<open>Properties of the Flattener\<close>

lemma and_then_Inr_simp: "and_then (Inr x) f = f x"
  by (simp add: and_then_def)

lemma and_then_InrE:
  assumes "and_then m f = Inr y"
  obtains x where "m = Inr x" and "f x = Inr y"
  using assms by (cases m) (simp_all add: and_then_def)

subsection \<open>The loops\<close>

lemma flatten_products_ConsE:
  assumes "flatten_products um cb (p # ps) = Inr rows"
  obtains pf k ucols rest where
    "obj_fields p = Inr pf" "dict_key (get cb ''user_id'') = Inr k"
    "user_columns (map_of um k) = Inr ucols"
    "flatten_products um cb ps = Inr rest"
    "rows = ((cb @ product_columns pf) @ ucols) # rest"
  using assms by (simp add: Let_def) (elim and_then_InrE, auto)

lemma flatten_carts_ConsE:
  assumes "flatten_carts um (c # cs) = Inr rows"
  obtains cf products rs rest where
    "obj_fields c = Inr cf"
    "flatten_products um (cart_columns cf) products = Inr rs"
    "flatten_carts um cs = Inr rest"
    "rows = rs @ rest"
  using assms by (simp add: Let_def) (elim and_then_InrE, auto)

lemma user_cells_ofI:
  assumes "dict_key (get row ''user_id'') = Inr k" "user_columns (map_of um k) = Inr ucols"
    "get row ''first_name'' = get ucols ''first_name''"
    "get row ''last_name'' = get ucols ''last_name''"
    "get row ''customer_name'' = get ucols ''customer_name''"
  shows "user_cells_of um row"
  unfolding user_cells_of_def using assms by blast

lemma get_row_cells:
  "get ((cart_columns cf @ product_columns pf) @ ucols) ''first_name'' = get ucols ''first_name''"
  "get ((cart_columns cf @ product_columns pf) @ ucols) ''last_name'' = get ucols ''last_name''"
  "get ((cart_columns cf @ product_columns pf) @ ucols) ''customer_name'' = get ucols ''customer_name''"
  "get ((cart_columns cf @ product_columns pf) @ ucols) ''user_id'' = get (cart_columns cf) ''user_id''"
  by (simp_all add: get_def cart_columns_def product_columns_def)

lemma flatten_products_cells:
  "flatten_products um (cart_columns cf) ps = Inr rows \<Longrightarrow> row \<in> set rows \<Longrightarrow> user_cells_of um row"
proof (induction ps arbitrary: rows)
  case Nil
  then show ?case by simp
next
  case (Cons p ps)
  from Cons.prems(1) obtain pf k ucols rest where
    k: "dict_key (get (cart_columns cf) ''user_id'') = Inr k" and
    u: "user_columns (map_of um k) = Inr ucols" and
    rest: "flatten_products um (cart_columns cf) ps = Inr rest" and
    rows: "rows = ((cart_columns cf @ product_columns pf) @ ucols) # rest"
    by (rule flatten_products_ConsE)
  from Cons.prems(2) rows consider "row = (cart_columns cf @ product_columns pf) @ ucols" | "row \<in> set rest"
    by auto
  then show ?case
  proof cases
    case 1
    show ?thesis
    proof (rule user_cells_ofI)
      show "dict_key (get row ''user_id'') = Inr k" unfolding 1 get_row_cells by (rule k)
      show "user_columns (map_of um k) = Inr ucols" by (rule u)
    qed (simp_all only: 1 get_row_cells)
  next
    case 2
    with Cons.IH [OF rest] show ?thesis by simp
  qed
qed

lemma flatten_carts_cells:
  "flatten_carts um cs = Inr rows \<Longrightarrow> row \<in> set rows \<Longrightarrow> user_cells_of um row"
proof (induction cs arbitrary: rows)
  case Nil
  then show ?case by simp
next
  case (Cons c cs)
  from Cons.prems(1) obtain cf products rs rest where
    rs: "flatten_products um (cart_columns cf) products = Inr rs" and
    rest: "flatten_carts um cs = Inr rest" and
    rows: "rows = rs @ rest"
    by (rule flatten_carts_ConsE)
  from Cons.prems(2) rows consider "row \<in> set rs" | "row \<in> set rest" by auto
  then show ?case
  proof cases
    case 1
    with rs show ?thesis by (rule flatten_products_cells)
  next
    case 2
    with Cons.IH [OF rest] show ?thesis by simp
  qed
qed

subsection \<open>From raw rows to the typed frame\<close>

lemma typed_rows_rows:
  "typed_rows raws = Inr df \<Longrightarrow> r \<in> set df \<Longrightarrow> \<exists>row \<in> set raws. frame_row row = Inr r"
proof (induction raws arbitrary: df)
  case Nil
  then show ?case by simp
next
  case (Cons a raws)
  from Cons.prems(1) obtain r0 rs where
    a: "frame_row a = Inr r0" and rs: "typed_rows raws = Inr rs" and df: "df = r0 # rs"
    by simp (elim and_then_InrE, auto)
  from Cons.prems(2) df consider "r = r0" | "r \<in> set rs" by auto
  then show ?case
  proof cases
    case 1
    with a show ?thesis by simp
  next
    case 2
    with Cons.IH [OF rs] show ?thesis by auto
  qed
qed

lemma data_frame_typed: "data_frame raws = Inr df \<Longrightarrow> typed_rows raws = Inr df"
  unfolding data_frame_def by (elim and_then_InrE) (simp split: if_splits)

lemma data_frame_rows:
  "data_frame raws = Inr df \<Longrightarrow> r \<in> set df \<Longrightarrow> \<exists>row \<in> set raws. frame_row row = Inr r"
  by (rule typed_rows_rows [OF data_frame_typed])

lemma frame_row_cells:
  assumes "frame_row row = Inr r"
  shows "int_cell (get row ''user_id'') = Inr (user_id r)
       \<and> text_cell (get row ''first_name'') = Inr (first_name r)
       \<and> text_cell (get row ''last_name'') = Inr (last_name r)
       \<and> text_cell (get row ''customer_name'') = Inr (customer_name r)"
  using assms unfolding frame_row_def
  by (elim and_then_InrE) auto

lemma add_order_date_fields:
  assumes "add_order_date today df = Inr out" and "r \<in> set out"
  shows "\<exists>r0 \<in> set df. user_id r = user_id r0 \<and> first_name r = first_name r0
            \<and> last_name r = last_name r0 \<and> customer_name r = customer_name r0"
proof -
  from assms(1) obtain dm where "out = map (\<lambda>r. r \<lparr> order_date := map_elements (\<lambda>x. map_of dm (Some x)) (cart_id r),
       product_title := map_option (strip_chars \<circ> to_lowercase) (product_title r) \<rparr>) df"
    unfolding add_order_date_def by (elim and_then_InrE) (auto split: if_splits)
  with assms(2) show ?thesis by auto
qed

lemma build_user_map_values:
  "build_user_map m us = Inr um \<Longrightarrow> map_of um k = Some u \<Longrightarrow>
     map_of m k = Some u \<or> (\<exists>kvs j. u = JObj kvs \<and> map_of kvs ''id'' = Some j)"
proof (induction us arbitrary: m)
  case Nil
  then show ?case by simp
next
  case (Cons a us)
  from Cons.prems(1) obtain j k' where
    j: "subscript a ''id'' = Inr j" and k': "dict_key j = Inr k'" and
    rest: "build_user_map ((k', a) # m) us = Inr um"
    by simp (elim and_then_InrE)
  from j obtain kvs where a: "a = JObj kvs" and "map_of kvs ''id'' = Some j"
    by (cases a) (auto split: option.splits)
  with Cons.IH [OF rest Cons.prems(2)] show ?case
    by (auto split: if_splits)
qed

lemma int_cell_json: "int_cell j = Inr v \<Longrightarrow> j = cell_json v \<and> dict_key j = Inr j"
  by (cases j) (auto simp: cell_json_def split: if_splits)

lemma extract_user_cells:
  assumes e: "extract_from_api today carts_payload users_payload = Inr rows"
      and u1: "dict_get users_payload ''users'' (JArr []) = Inr users"
      and u2: "py_iter users = Inr us"
      and u3: "build_user_map [] us = Inr user_map"
      and r: "r \<in> set rows"
  shows "\<exists>ucols. user_columns (map_of user_map (cell_json (user_id r))) = Inr ucols
          \<and> text_cell (get ucols ''first_name'') = Inr (first_name r)
          \<and> text_cell (get ucols ''last_name'') = Inr (last_name r)
          \<and> text_cell (get ucols ''customer_name'') = Inr (customer_name r)"
proof -
  from e obtain raw where
    raw: "flatten_rows carts_payload users_payload = Inr raw" and
    rest: "(if raw = [] then Inr [] else and_then (data_frame raw) (add_order_date today)) = Inr rows"
    unfolding extract_from_api_def by (rule and_then_InrE)
  from rest r have "raw \<noteq> []" by (auto split: if_splits)
  with rest obtain df where df: "data_frame raw = Inr df" and out: "add_order_date today df = Inr rows"
    by simp (elim and_then_InrE)
  from raw u1 u2 u3 obtain cs where fc: "flatten_carts user_map cs = Inr raw"
    unfolding flatten_rows_def by (elim and_then_InrE) simp
  from add_order_date_fields [OF out r] obtain r0 where
    r0: "r0 \<in> set df" and
    same: "user_id r = user_id r0" "first_name r = first_name r0"
      "last_name r = last_name r0" "customer_name r = customer_name r0"
    by blast
  from data_frame_rows [OF df r0] obtain row where
    row: "row \<in> set raw" and fr: "frame_row row = Inr r0"
    by blast
  from flatten_carts_cells [OF fc row] obtain k ucols where
    k: "dict_key (get row ''user_id'') = Inr k" and
    uc: "user_columns (map_of user_map k) = Inr ucols" and
    cells: "get row ''first_name'' = get ucols ''first_name''"
      "get row ''last_name'' = get ucols ''last_name''"
      "get row ''customer_name'' = get ucols ''customer_name''"
    unfolding user_cells_of_def by blast
  note fc = frame_row_cells [OF fr]
  from fc have "int_cell (get row ''user_id'') = Inr (user_id r0)" by simp
  from int_cell_json [OF this] k have "k = cell_json (user_id r0)" by simp
  with uc same have "user_columns (map_of user_map (cell_json (user_id r))) = Inr ucols" by simp
  with fc cells same show ?thesis by auto
qed

subsection \<open>The order date stage\<close>

lemma somes_set: "set [c. Some c \<leftarrow> xs] = {c. Some c \<in> set xs}"
  by (induction xs) (auto split: option.splits)

lemma somes_remdups: "[c. Some c \<leftarrow> remdups xs] = remdups [c. Some c \<leftarrow> xs]"
proof (induction xs)
  case Nil
  then show ?case by simp
next
  case (Cons x xs)
  show ?case
  proof (cases x)
    case None
    with Cons show ?thesis by simp
  next
    case (Some c)
    have "(c \<in> set [c. Some c \<leftarrow> xs]) = (Some c \<in> set xs)"
      by (simp only: somes_set) simp
    with Cons Some show ?thesis by simp
  qed
qed

lemma date_map_lookup:
  "build_date_map today i0 ks = Inr m \<Longrightarrow> distinct ks \<Longrightarrow> j < length ks \<Longrightarrow>
     map_of m (ks ! j) = Some (isoformat (today - int ((i0 + j) mod 30)))"
proof (induction ks arbitrary: i0 m j)
  case Nil
  then show ?case by simp
next
  case (Cons k ks)
  from Cons.prems(1) obtain d m' where
    d: "date_minus_days today (i0 mod 30) = Inr d" and
    m': "build_date_map today (Suc i0) ks = Inr m'" and
    m: "m = (k, isoformat d) # m'"
    by (simp add: Let_def) (elim and_then_InrE, auto)
  from d have dv: "d = today - int (i0 mod 30)"
    by (simp add: date_minus_days_def split: if_splits)
  show ?case
  proof (cases j)
    case 0
    with m dv show ?thesis by simp
  next
    case (Suc j')
    with Cons.prems have j': "j' < length ks" and dk: "distinct ks" and nk: "k \<notin> set ks"
      by simp_all
    from j' nk have ne: "ks ! j' \<noteq> k" by (metis nth_mem)
    from Cons.IH [OF m' dk j']
    have "map_of m' (ks ! j') = Some (isoformat (today - int ((Suc i0 + j') mod 30)))" .
    with Suc m ne show ?thesis by simp
  qed
qed

lemma add_order_date_cart_ids:
  assumes "add_order_date today df = Inr out"
  shows "map cart_id out = map cart_id df"
  using assms unfolding add_order_date_def
  by (elim and_then_InrE) (auto simp: comp_def split: if_splits)

lemma add_order_date_rank:
  assumes out: "add_order_date today df = Inr out"
      and i: "i < length (spec_sorted_cart_ids out)"
      and r: "r \<in> set out"
      and c: "cart_id r = Some (spec_sorted_cart_ids out ! i)"
  shows "order_date r = Some (isoformat (today - int (i mod 30)))"
proof -
  let ?ids = "remdups (map cart_id df)"
  let ?S = "spec_sorted_cart_ids out"
  from out obtain sorted_ids date_map where
    s: "py_sorted ?ids = Inr sorted_ids" and
    dm: "build_date_map today 0 sorted_ids = Inr date_map" and
    o: "out = map (\<lambda>r. r \<lparr> order_date := map_elements (\<lambda>x. map_of date_map (Some x)) (cart_id r),
                          product_title := map_option (strip_chars \<circ> to_lowercase) (product_title r) \<rparr>) df"
    unfolding add_order_date_def by (elim and_then_InrE) (auto split: if_splits)
  have S: "?S = sort [c. Some c \<leftarrow> ?ids]"
    by (simp add: spec_sorted_cart_ids_def add_order_date_cart_ids [OF out] somes_remdups)
  from r o c have od: "order_date r = map_of date_map (Some (?S ! i))"
    by (auto simp: map_elements_def)
  define L where "L = [c. Some c \<leftarrow> ?ids]"
  have SL: "?S = sort L" by (simp only: S L_def)
  have nn: "None \<notin> set ?ids"
  proof
    assume n: "None \<in> set ?ids"
    with s have len: "length ?ids < 2" by (simp add: py_sorted_def split: if_splits)
    from i SL have "L \<noteq> []" by auto
    then obtain x where "x \<in> set L" by (meson last_in_set)
    then have x: "Some x \<in> set ?ids" unfolding L_def by (simp only: somes_set) simp
    obtain a where a: "?ids = [a]"
      using len n by (cases ?ids; cases "tl ?ids") auto
    from n x show False unfolding a by simp
  qed
  from nn s have sid: "sorted_ids = map Some ?S" by (simp add: py_sorted_def S)
  have "distinct [c. Some c \<leftarrow> ?ids]" by (simp add: somes_remdups)
  then have dS: "distinct (map Some ?S)" by (simp add: S distinct_map)
  from i have "i < length (map Some ?S)" by simp
  from date_map_lookup [OF dm [unfolded sid] dS this] i od show ?thesis by simp
qed

lemma build_date_map_total:
  "30 \<le> today \<Longrightarrow> \<exists>m. build_date_map today i ks = Inr m"
proof (induction ks arbitrary: i)
  case Nil
  then show ?case by simp
next
  case (Cons k ks)
  from Cons.prems have "date_minus_days today (i mod 30) = Inr (today - int (i mod 30))"
    by (simp add: date_minus_days_def)
  moreover from Cons.IH [OF Cons.prems] obtain m where "build_date_map today (Suc i) ks = Inr m"
    by blast
  ultimately show ?case by (simp add: and_then_Inr_simp)
qed

lemma add_order_date_total:
  assumes "None \<notin> set (map cart_id df)" and "30 \<le> today"
      and "\<exists>x \<in> set df. product_title x \<noteq> None"
  shows "\<exists>out. add_order_date today df = Inr out"
proof -
  from assms(1) have "py_sorted (remdups (map cart_id df))
      = Inr (map Some (sort [c. Some c \<leftarrow> remdups (map cart_id df)]))"
    by (simp add: py_sorted_def)
  moreover from build_date_map_total [OF assms(2)] obtain m where
    "build_date_map today 0 (map Some (sort [c. Some c \<leftarrow> remdups (map cart_id df)])) = Inr m"
    by blast
  moreover from assms(3) have "\<not> list_all (\<lambda>r. product_title r = None) df"
    by (auto simp: list_all_iff)
  ultimately show ?thesis by (simp add: add_order_date_def and_then_Inr_simp)
qed

lemma add_order_date_title:
  assumes "add_order_date today df = Inr out"
  shows "\<exists>x \<in> set out. product_title x \<noteq> None"
proof -
  from assms obtain dm where
    t: "\<not> list_all (\<lambda>r. product_title r = None) df" and
    o: "out = map (\<lambda>r. r \<lparr> order_date := map_elements (\<lambda>x. map_of dm (Some x)) (cart_id r),
                          product_title := map_option (strip_chars \<circ> to_lowercase) (product_title r) \<rparr>) df"
    unfolding add_order_date_def by (elim and_then_InrE) (auto split: if_splits)
  from t obtain x where "x \<in> set df" "product_title x \<noteq> None"
    by (auto simp: list_all_iff)
  then show ?thesis unfolding o by force
qed

subsection \<open>The example payloads\<close>

lemma extract_carts_513:
  "extract_from_api 739194 carts_513 users_example = Inr [row_cart5, row_cart1, row_cart3]"
  by code_simp

lemma users_example_map:
  "dict_get users_example ''users'' (JArr []) = Inr (JArr [user_10, user_11])"
  "py_iter (JArr [user_10, user_11]) = Inr [user_10, user_11]"
  "build_user_map [] [user_10, user_11] = Inr [(JInt 11, user_11), (JInt 10, user_10)]"
  by (simp_all add: users_example_def user_10_def user_11_def and_then_Inr_simp)

subsection \<open>The customer cells\<close>

lemma get_Cons: "get ((k, v) # kvs) k' = (if k = k' then v else get kvs k')"
  by (simp add: get_def)

lemma name_text_JStr: "name_text j = Inr f \<Longrightarrow> j = JStr f"
  by (cases j) simp_all

lemma user_columns_SomeE:
  assumes "user_columns (Some (JObj uf)) = Inr ucols" and "uf \<noteq> []"
  obtains f l where
    "py_or (get uf ''firstName'') (JStr []) = JStr f"
    "py_or (get uf ''lastName'') (JStr []) = JStr l"
    "get ucols ''first_name'' = JStr f"
    "get ucols ''last_name'' = JStr l"
    "get ucols ''customer_name'' = JStr (py_strip (f @ '' '' @ l))"
proof -
  from assms have "and_then (obj_fields (JObj uf)) (\<lambda>uf.
            and_then (name_text (py_or (get uf ''firstName'') (JStr []))) (\<lambda>f.
            and_then (name_text (py_or (get uf ''lastName'') (JStr []))) (\<lambda>l.
            and_then (obj_fields (py_or (get uf ''address'') (JObj []))) (\<lambda>addr.
            Inr [(''first_name'', py_or (get uf ''firstName'') (JStr [])),
                 (''last_name'', py_or (get uf ''lastName'') (JStr [])),
                 (''customer_name'', JStr (py_strip (f @ '' '' @ l))),
                 (''email'', get uf ''email''), (''city'', get addr ''city''),
                 (''age'', get uf ''age''), (''gender'', get uf ''gender'')])))) = Inr ucols"
    by (simp add: user_columns_def Let_def)
  then obtain f l addr where
    f: "name_text (py_or (get uf ''firstName'') (JStr [])) = Inr f" and
    l: "name_text (py_or (get uf ''lastName'') (JStr [])) = Inr l" and
    u: "ucols = [(''first_name'', py_or (get uf ''firstName'') (JStr [])),
                 (''last_name'', py_or (get uf ''lastName'') (JStr [])),
                 (''customer_name'', JStr (py_strip (f @ '' '' @ l))),
                 (''email'', get uf ''email''), (''city'', get addr ''city''),
                 (''age'', get uf ''age''), (''gender'', get uf ''gender'')]"
    by (elim and_then_InrE) auto
  note f' = name_text_JStr [OF f] and l' = name_text_JStr [OF l]
  show thesis
  proof (rule that [of f l])
    show "py_or (get uf ''firstName'') (JStr []) = JStr f" by (rule f')
    show "py_or (get uf ''lastName'') (JStr []) = JStr l" by (rule l')
    show "get ucols ''first_name'' = JStr f" unfolding u by (simp add: get_Cons f')
    show "get ucols ''last_name'' = JStr l" unfolding u by (simp add: get_Cons l')
    show "get ucols ''customer_name'' = JStr (py_strip (f @ '' '' @ l))"
      unfolding u by (simp add: get_Cons)
  qed
qed

lemma absent_name_default: "map_of uf k = None \<Longrightarrow> py_or (get uf k) (JStr []) = JStr []"
  by (simp add: get_def py_or_def)

lemma text_cell_JStr: "text_cell (JStr s) = Inr c \<Longrightarrow> c = Some s"
  by simp

subsection \<open>Frames of the examples, and the Normalizer call\<close>

lemma extract_carts_roe: "extract_from_api 739194 carts_roe users_three = Inr [row_cart7]"
  by code_simp


lemma users_three_map:
  "dict_get users_three ''users'' (JArr []) = Inr (JArr [user_10, user_11, user_12])"
  "py_iter (JArr [user_10, user_11, user_12]) = Inr [user_10, user_11, user_12]"
  "build_user_map [] [user_10, user_11, user_12]
     = Inr [(JInt 12, user_12), (JInt 11, user_11), (JInt 10, user_10)]"
  by (simp_all add: users_three_def user_10_def user_11_def user_12_def and_then_Inr_simp)

lemma extract_titles:
  assumes "extract_from_api today carts_payload users_payload = Inr rows" and "r \<in> set rows"
  shows "\<exists>x \<in> set rows. product_title x \<noteq> None"
proof -
  from assms(1) obtain raw where
    rest: "(if raw = [] then Inr [] else and_then (data_frame raw) (add_order_date today)) = Inr rows"
    unfolding extract_from_api_def by (rule and_then_InrE)
  from rest assms(2) have "raw \<noteq> []" by (auto split: if_splits)
  with rest obtain df where "add_order_date today df = Inr rows"
    by simp (elim and_then_InrE)
  then show ?thesis by (rule add_order_date_title)
qed

lemma frame_returns:
  assumes "\<exists>x \<in> set df. product_title x \<noteq> None" and "\<exists>x \<in> set df. customer_name x \<noteq> None"
  shows "clean_and_transform_frame df = Inr (clean_and_transform df)"
  using assms by (auto simp: clean_and_transform_frame_def list_all_iff)


lemma name_field:
  assumes "map_of uf k = None \<and> f = [] \<or> map_of uf k = Some (JStr f)"
  shows "py_or (get uf k) (JStr []) = JStr f"
  using assms by (auto simp: get_def py_or_def)

subsection \<open>Ranks of the cart identifiers\<close>

lemma extract_rank:
  assumes "extract_from_api today carts_payload users_payload = Inr rows"
      and "i < length (spec_sorted_cart_ids rows)"
      and "r \<in> set rows"
      and "cart_id r = Some (spec_sorted_cart_ids rows ! i)"
  shows "order_date r = Some (isoformat (today - int (i mod 30)))"
proof -
  from assms(1) obtain raw where
    rest: "(if raw = [] then Inr [] else and_then (data_frame raw) (add_order_date today)) = Inr rows"
    unfolding extract_from_api_def by (rule and_then_InrE)
  from rest assms(3) have "raw \<noteq> []" by (auto split: if_splits)
  with rest obtain df where "add_order_date today df = Inr rows"
    by simp (elim and_then_InrE)
  from add_order_date_rank [OF this assms(2-4)] show ?thesis .
qed

lemma frame_32_ids: "map cart_id frame_32 = map Some (rev [1..32])"
  by (simp add: frame_32_def comp_def)

lemma sorted_ids_32: "sort (remdups [c. Some c \<leftarrow> map Some (rev [1..32])]) = [1..32]"
  by code_simp

lemma nth_ids_32: "[1..32] ! 0 = 1" "[1..32] ! 29 = 30" "[1..32] ! 30 = 31" "[1..32] ! 31 = 32"
  "length [1..32] = 32"
  by code_simp+

lemma iso_32: "isoformat 739194 = ''2024-11-04''" "isoformat 739193 = ''2024-11-03''"
  "isoformat 739165 = ''2024-10-06''"
  by code_simp+

lemma frame_32_title: "\<exists>x \<in> set frame_32. product_title x \<noteq> None"
  by code_simp

subsection \<open>The Flattener returns on payloads of the schema\<close>

lemma int_ok_cell: "int_ok j \<Longrightarrow> \<exists>v. int_cell j = Inr v"
  by (cases j) simp_all

lemma float_ok_cell: "float_ok j \<Longrightarrow> \<exists>v. float_cell j = Inr v"
  by (cases j) simp_all

lemma text_ok_cell: "text_ok j \<Longrightarrow> \<exists>v. text_cell j = Inr v"
  by (cases j) simp_all

lemma id_ok_cell: "id_ok j \<Longrightarrow> \<exists>n. int_cell j = Inr (Some n)"
  by (cases j) simp_all

lemma frame_row_ok:
  assumes "row_ok row"
  shows "\<exists>r. frame_row row = Inr r \<and> cart_id r \<noteq> None"
proof -
  from assms obtain n where c1: "int_cell (get row ''cart_id'') = Inr (Some n)"
    unfolding row_ok_def using id_ok_cell by blast
  from assms have
    i: "int_ok (get row ''user_id'')" "int_ok (get row ''cart_total_products'')"
      "int_ok (get row ''cart_total_quantity'')" "int_ok (get row ''product_id'')"
      "int_ok (get row ''product_quantity'')" "int_ok (get row ''age'')" and
    f: "float_ok (get row ''cart_total'')" "float_ok (get row ''cart_discounted_total'')"
      "float_ok (get row ''product_price'')" "float_ok (get row ''product_total'')" and
    t: "text_ok (get row ''product_title'')" "text_ok (get row ''first_name'')"
      "text_ok (get row ''last_name'')" "text_ok (get row ''customer_name'')"
      "text_ok (get row ''email'')" "text_ok (get row ''city'')" "text_ok (get row ''gender'')"
    unfolding row_ok_def by simp_all
  from i [THEN int_ok_cell] obtain v2 v5 v6 v7 v10 v17 where iv:
    "int_cell (get row ''user_id'') = Inr v2" "int_cell (get row ''cart_total_products'') = Inr v5"
    "int_cell (get row ''cart_total_quantity'') = Inr v6" "int_cell (get row ''product_id'') = Inr v7"
    "int_cell (get row ''product_quantity'') = Inr v10" "int_cell (get row ''age'') = Inr v17"
    by blast
  from f [THEN float_ok_cell] obtain v3 v4 v9 v11 where fv:
    "float_cell (get row ''cart_total'') = Inr v3" "float_cell (get row ''cart_discounted_total'') = Inr v4"
    "float_cell (get row ''product_price'') = Inr v9" "float_cell (get row ''product_total'') = Inr v11"
    by blast
  from t [THEN text_ok_cell] obtain v8 v12 v13 v14 v15 v16 v18 where tv:
    "text_cell (get row ''product_title'') = Inr v8" "text_cell (get row ''first_name'') = Inr v12"
    "text_cell (get row ''last_name'') = Inr v13" "text_cell (get row ''customer_name'') = Inr v14"
    "text_cell (get row ''email'') = Inr v15" "text_cell (get row ''city'') = Inr v16"
    "text_cell (get row ''gender'') = Inr v18"
    by blast
  show ?thesis
    unfolding frame_row_def by (simp add: c1 iv fv tv and_then_Inr_simp)
qed

lemma typed_rows_ok:
  "list_all row_ok raws \<Longrightarrow> \<exists>df. typed_rows raws = Inr df \<and> None \<notin> set (map cart_id df)"
proof (induction raws)
  case Nil
  then show ?case by simp
next
  case (Cons a raws)
  then obtain df where df: "typed_rows raws = Inr df" "None \<notin> set (map cart_id df)"
    by auto
  from Cons.prems have "row_ok a" by simp
  from frame_row_ok [OF this] obtain r where "frame_row a = Inr r" "cart_id r \<noteq> None"
    by blast
  with df show ?case by (auto simp: and_then_Inr_simp)
qed

lemma text_ok_or: "text_ok j \<Longrightarrow> \<exists>s. py_or j (JStr []) = JStr s"
  by (cases j) (simp_all add: py_or_def)

lemma address_ok_or:
  "address_ok j \<Longrightarrow> \<exists>a. obj_fields (py_or j (JObj [])) = Inr a \<and> text_ok (get a ''city'')"
  by (cases j) (simp_all add: py_or_def get_def)

lemma no_user_columns_ok: "ucols_ok no_user_columns"
  by (simp add: ucols_ok_def no_user_columns_def get_def)

lemma user_columns_ok:
  assumes "valid_user u"
  shows "\<exists>ucols. user_columns (Some u) = Inr ucols \<and> ucols_ok ucols"
proof -
  from assms obtain uf where u: "u = JObj uf" by (cases u) simp_all
  with assms have v: "text_ok (get uf ''firstName'')" "text_ok (get uf ''lastName'')"
    "text_ok (get uf ''email'')" "address_ok (get uf ''address'')"
    "int_ok (get uf ''age'')" "text_ok (get uf ''gender'')"
    by simp_all
  from text_ok_or [OF v(1)] obtain f where f: "py_or (get uf ''firstName'') (JStr []) = JStr f" ..
  from text_ok_or [OF v(2)] obtain l where l: "py_or (get uf ''lastName'') (JStr []) = JStr l" ..
  from address_ok_or [OF v(4)] obtain a where
    a: "obj_fields (py_or (get uf ''address'') (JObj [])) = Inr a" "text_ok (get a ''city'')"
    by blast
  show ?thesis
  proof (cases "uf = []")
    case True
    then show ?thesis by (simp add: u user_columns_def no_user_columns_ok)
  next
    case False
    then have "user_columns (Some u) =
      Inr [(''first_name'', JStr f), (''last_name'', JStr l),
           (''customer_name'', JStr (py_strip (f @ '' '' @ l))),
           (''email'', get uf ''email''), (''city'', get a ''city''),
           (''age'', get uf ''age''), (''gender'', get uf ''gender'')]"
      by (simp add: u user_columns_def f l a and_then_Inr_simp)
    moreover have "ucols_ok [(''first_name'', JStr f), (''last_name'', JStr l),
           (''customer_name'', JStr (py_strip (f @ '' '' @ l))),
           (''email'', get uf ''email''), (''city'', get a ''city''),
           (''age'', get uf ''age''), (''gender'', get uf ''gender'')]"
      using v a(2) by (simp add: ucols_ok_def get_Cons)
    ultimately show ?thesis by simp
  qed
qed

lemma build_user_map_ok:
  "list_all valid_user us \<Longrightarrow> \<forall>u \<in> snd ` set m. valid_user u
     \<Longrightarrow> \<exists>um. build_user_map m us = Inr um \<and> (\<forall>u \<in> snd ` set um. valid_user u)"
proof (induction us arbitrary: m)
  case Nil
  then show ?case by simp
next
  case (Cons u us)
  from Cons.prems(1) have vu: "valid_user u" and vus: "list_all valid_user us" by simp_all
  from vu obtain uf where u: "u = JObj uf" by (cases u) simp_all
  with vu have "id_ok (get uf ''id'')" by simp
  then obtain n where n: "get uf ''id'' = JInt n" by (cases "get uf ''id''") simp_all
  then have s: "subscript u ''id'' = Inr (JInt n)"
    by (simp add: u get_def split: option.splits)
  have "\<forall>x \<in> snd ` set ((JInt n, u) # m). valid_user x"
    using vu Cons.prems(2) by simp
  from Cons.IH [OF vus this] show ?case
    by (simp add: s and_then_Inr_simp)
qed

lemma lookup_ok:
  "\<forall>u \<in> snd ` set um. valid_user u \<Longrightarrow> \<exists>ucols. user_columns (map_of um k) = Inr ucols \<and> ucols_ok ucols"
proof (cases "map_of um k")
  case None
  then show ?thesis by (simp add: user_columns_def no_user_columns_ok)
next
  case (Some u)
  assume "\<forall>u \<in> snd ` set um. valid_user u"
  moreover from Some have "u \<in> snd ` set um" by (force dest: map_of_SomeD)
  ultimately have "valid_user u" by blast
  from user_columns_ok [OF this] Some show ?thesis by simp
qed

lemma int_ok_key: "int_ok j \<Longrightarrow> dict_key j = Inr j"
  by (cases j) simp_all

lemma get_append: "get (xs @ ys) k = (if k \<in> fst ` set xs then get xs k else get ys k)"
proof (cases "map_of xs k")
  case None
  then have "k \<notin> fst ` set xs" by (simp add: map_of_eq_None_iff)
  then show ?thesis unfolding get_def map_of_append map_add_def None by simp
next
  case (Some v)
  then have "k \<in> fst ` set xs" by (force dest: map_of_SomeD)
  with Some show ?thesis by (simp add: get_def map_add_def)
qed

lemma raw_row_ok:
  assumes c: "valid_cart (JObj cf)" and p: "valid_product (JObj pf)" and u: "ucols_ok ucols"
  shows "row_ok ((cart_columns cf @ product_columns pf) @ ucols)"
proof -
  define base where "base = cart_columns cf @ product_columns pf"
  have keys: "fst ` set base = {''cart_id'', ''user_id'', ''cart_total'', ''cart_discounted_total'',
      ''cart_total_products'', ''cart_total_quantity'', ''product_id'', ''product_title'',
      ''product_price'', ''product_quantity'', ''product_total''}"
    by (auto simp: base_def cart_columns_def product_columns_def)
  have b: "get base ''cart_id'' = get cf ''id''" "get base ''user_id'' = get cf ''userId''"
    "get base ''cart_total'' = get cf ''total''"
    "get base ''cart_discounted_total'' = get cf ''discountedTotal''"
    "get base ''cart_total_products'' = get cf ''totalProducts''"
    "get base ''cart_total_quantity'' = get cf ''totalQuantity''"
    "get base ''product_id'' = get pf ''id''" "get base ''product_title'' = get pf ''title''"
    "get base ''product_price'' = get pf ''price''"
    "get base ''product_quantity'' = get pf ''quantity''"
    "get base ''product_total'' = get pf ''total''"
    by (simp_all add: base_def cart_columns_def product_columns_def get_Cons)
  from u have uc: "text_ok (get ucols ''first_name'')" "text_ok (get ucols ''last_name'')"
      "text_ok (get ucols ''customer_name'')" "text_ok (get ucols ''email'')"
      "text_ok (get ucols ''city'')" "int_ok (get ucols ''age'')"
      "text_ok (get ucols ''gender'')"
    by (simp_all add: ucols_ok_def)
  from c have "id_ok (get cf ''id'')" by simp
  then have idk: "int_ok (get cf ''id'')" by (cases "get cf ''id''") simp_all
  show ?thesis
    unfolding base_def [symmetric] row_ok_def
    using c p uc idk by (simp add: get_append keys b)
qed

lemma flatten_products_ok:
  assumes c: "valid_cart (JObj cf)" and um: "\<forall>u \<in> snd ` set um. valid_user u"
  shows "list_all valid_product ps
    \<Longrightarrow> \<exists>rows. flatten_products um (cart_columns cf) ps = Inr rows \<and> list_all row_ok rows"
proof (induction ps)
  case Nil
  then show ?case by simp
next
  case (Cons p ps)
  then obtain rows where r: "flatten_products um (cart_columns cf) ps = Inr rows" "list_all row_ok rows"
    by auto
  from Cons.prems have vp: "valid_product p" by simp
  then obtain pf where p: "p = JObj pf" by (cases p) simp_all
  from c have "int_ok (get cf ''userId'')" by simp
  then have k: "dict_key (get (cart_columns cf) ''user_id'') = Inr (get cf ''userId'')"
    by (simp add: cart_columns_def get_Cons int_ok_key)
  from lookup_ok [OF um] obtain ucols where
    uc: "user_columns (map_of um (get cf ''userId'')) = Inr ucols" "ucols_ok ucols"
    by blast
  from raw_row_ok [OF c vp [unfolded p] uc(2)]
  show ?case
    by (simp add: p k uc(1) r and_then_Inr_simp)
qed

lemma products_ok_iter:
  "products_ok j \<Longrightarrow> \<exists>ps. py_iter (py_or j (JArr [])) = Inr ps \<and> list_all valid_product ps"
  by (cases j) (simp_all add: py_or_def)

lemma flatten_carts_ok:
  assumes um: "\<forall>u \<in> snd ` set um. valid_user u"
  shows "list_all valid_cart cs
    \<Longrightarrow> \<exists>rows. flatten_carts um cs = Inr rows \<and> list_all row_ok rows"
proof (induction cs)
  case Nil
  then show ?case by simp
next
  case (Cons c cs)
  then obtain rest where r: "flatten_carts um cs = Inr rest" "list_all row_ok rest"
    by auto
  from Cons.prems have vc: "valid_cart c" by simp
  then obtain cf where c: "c = JObj cf" by (cases c) simp_all
  with vc have "products_ok (get cf ''products'')" by simp
  from products_ok_iter [OF this] obtain ps where
    ps: "py_iter (py_or (get cf ''products'') (JArr [])) = Inr ps" "list_all valid_product ps"
    by blast
  from flatten_products_ok [OF vc [unfolded c] um ps(2)] obtain rows where
    rows: "flatten_products um (cart_columns cf) ps = Inr rows" "list_all row_ok rows"
    by blast
  show ?case
    by (simp add: c ps(1) rows r and_then_Inr_simp)
qed

lemma collection_ok_get:
  "collection_ok P k j \<Longrightarrow> \<exists>v xs. dict_get j k (JArr []) = Inr v \<and> py_iter v = Inr xs \<and> list_all P xs"
proof (cases j)
  case (JObj kvs)
  assume "collection_ok P k j"
  with JObj show ?thesis
    by (cases "map_of kvs k") (auto split: json.splits)
qed simp_all

lemma flatten_rows_ok:
  assumes "valid_payloads carts_payload users_payload"
  shows "\<exists>raw. flatten_rows carts_payload users_payload = Inr raw \<and> list_all row_ok raw"
proof -
  from assms have c: "collection_ok valid_cart ''carts'' carts_payload"
    and u: "collection_ok valid_user ''users'' users_payload"
    by (simp_all add: valid_payloads_def)
  from collection_ok_get [OF c] obtain cv cs where
    cs: "dict_get carts_payload ''carts'' (JArr []) = Inr cv" "py_iter cv = Inr cs" "list_all valid_cart cs"
    by blast
  from collection_ok_get [OF u] obtain uv us where
    us: "dict_get users_payload ''users'' (JArr []) = Inr uv" "py_iter uv = Inr us" "list_all valid_user us"
    by blast
  from build_user_map_ok [OF us(3), of "[]"] obtain um where
    um: "build_user_map [] us = Inr um" "\<forall>u \<in> snd ` set um. valid_user u"
    by auto
  from flatten_carts_ok [OF um(2) cs(3)] obtain raw where
    "flatten_carts um cs = Inr raw" "list_all row_ok raw"
    by blast
  then show ?thesis
    by (simp add: flatten_rows_def cs(1,2) us(1,2) um(1) and_then_Inr_simp)
qed

lemma extract_returns:
  assumes v: "valid_payloads carts_payload users_payload" and t: "30 \<le> today"
  shows "\<exists>raw df. flatten_rows carts_payload users_payload = Inr raw \<and> typed_rows raw = Inr df
           \<and> None \<notin> set (map cart_id df)
           \<and> (raw \<noteq> [] \<and> schema_fits raw \<and> (\<exists>x \<in> set df. product_title x \<noteq> None)
                \<longrightarrow> (\<exists>out. extract_from_api today carts_payload users_payload = Inr out
                       \<and> map cart_id out = map cart_id df))"
proof -
  from flatten_rows_ok [OF v] obtain raw where
    raw: "flatten_rows carts_payload users_payload = Inr raw" "list_all row_ok raw"
    by blast
  from typed_rows_ok [OF raw(2)] obtain df where
    df: "typed_rows raw = Inr df" "None \<notin> set (map cart_id df)"
    by blast
  have "\<exists>out. extract_from_api today carts_payload users_payload = Inr out
          \<and> map cart_id out = map cart_id df"
    if c: "raw \<noteq> []" "schema_fits raw" "\<exists>x \<in> set df. product_title x \<noteq> None"
  proof -
    from add_order_date_total [OF df(2) t c(3)] obtain out where
      o: "add_order_date today df = Inr out" ..
    have "extract_from_api today carts_payload users_payload = Inr out"
      by (simp add: extract_from_api_def data_frame_def raw(1) df(1) c(1,2) o and_then_Inr_simp)
    with add_order_date_cart_ids [OF o] show ?thesis by blast
  qed
  with raw(1) df show ?thesis by blast
qed

section \<open>Claims about the Flattener\<close>

text \<open>
  Claim C2 as stated (a payload without the \<open>carts\<close> key fails with a
  MissingInputError) does not hold: \<open>carts_payload.get("carts", [])\<close> supplies the
  empty list, and the result is the empty frame, with no error.
\<close>

theorem missing_carts_key_counterexample:
  "extract_from_api 739194 carts_without_key users_example = Inr []"
  by code_simp

text \<open>
  Claim C2, amended. When the carts payload is a JSON object that has no \<open>carts\<close> key,
  or whose \<open>carts\<close> key holds the empty list, and the users payload gives a user map,
  the Flattener returns the empty row sequence and raises nothing: the absent key is
  treated as the empty collection.
\<close>

theorem missing_carts_key_is_empty:
  assumes "map_of kvs ''carts'' = None \<or> map_of kvs ''carts'' = Some (JArr [])"
      and "dict_get users_payload ''users'' (JArr []) = Inr users"
      and "py_iter users = Inr us"
      and "build_user_map [] us = Inr user_map"
  shows "extract_from_api today (JObj kvs) users_payload = Inr []"
proof -
  from assms(1) have "dict_get (JObj kvs) ''carts'' (JArr []) = Inr (JArr [])"
    by auto
  with assms(2-4) have "flatten_rows (JObj kvs) users_payload = Inr []"
    by (simp add: flatten_rows_def and_then_Inr_simp)
  then show ?thesis
    by (simp add: extract_from_api_def and_then_Inr_simp)
qed

theorem missing_carts_key_is_empty_witness:
  "extract_from_api 739194 (JObj [(''total'', JInt 0)]) users_example = Inr []
   \<and> extract_from_api 739194 (JObj [(''carts'', JArr [])]) users_example = Inr []"
proof -
  have a: "map_of [(''total'', JInt 0)] ''carts'' = None
      \<or> map_of [(''total'', JInt 0)] ''carts'' = Some (JArr [])"
    by simp
  have b: "map_of [(''carts'', JArr [])] ''carts'' = None
      \<or> map_of [(''carts'', JArr [])] ''carts'' = Some (JArr [])"
    by simp
  from missing_carts_key_is_empty [OF a users_example_map]
    missing_carts_key_is_empty [OF b users_example_map]
  show ?thesis by simp
qed

text \<open>
  Claim C5 as stated (the rank is taken among the distinct identifiers of the carts) does
  not hold: a cart without products has no row and takes no rank. With cart 1 empty and
  cart 2 holding a product, cart 2 would have rank 1 and the date of yesterday; the
  Flattener gives it rank 0 and the date of today.
\<close>

theorem order_date_rank_counterexample:
  "extract_from_api 739194 carts_gap users_example = Inr [row_cart2]
   \<and> order_date row_cart2 = Some (isoformat 739194)
   \<and> isoformat 739194 \<noteq> isoformat (739194 - 1)"
  by code_simp

text \<open>
  Claim C5, amended. The ranks are taken among the distinct cart identifiers that occur
  in the flattened rows, sorted ascending: every returned row whose cart identifier has
  the zero-based rank \<open>i\<close> there has \<open>order_date = isoformat (today - (i mod 30) days)\<close>.
  On payloads of the API schema (and a \<open>today\<close> at least thirty days after
  \<open>date.min\<close>) the rows are flattened and typed, no cart identifier is null, and the
  extraction returns a row for each of them unless the data frame library refuses the
  frame (no row, a column that is null in the first 100 rows only, no product title).
  The stage that assigns the dates returns for every frame with no null cart identifier
  and some product title, however many carts there are. The result is a function of the
  payloads and \<open>today\<close>, so repeated runs agree. On carts fetched in the order 5, 1, 3 the dates are
  today-2, today, today-1; with thirty-two carts the ranks 30 and 31 get today and today-1
  again.
\<close>

theorem order_date_by_rank_among_rows:
  "(extract_from_api today carts_payload users_payload = Inr rows
      \<and> i < length (spec_sorted_cart_ids rows) \<and> r \<in> set rows
      \<and> cart_id r = Some (spec_sorted_cart_ids rows ! i)
     \<longrightarrow> order_date r = Some (isoformat (today - int (i mod 30))))
   \<and> (valid_payloads carts_payload users_payload \<and> 30 \<le> today
     \<longrightarrow> (\<exists>raw df. flatten_rows carts_payload users_payload = Inr raw
            \<and> typed_rows raw = Inr df \<and> None \<notin> set (map cart_id df)
            \<and> (raw \<noteq> [] \<and> schema_fits raw \<and> (\<exists>x \<in> set df. product_title x \<noteq> None)
                 \<longrightarrow> (\<exists>out. extract_from_api today carts_payload users_payload = Inr out
                        \<and> map cart_id out = map cart_id df))))
   \<and> (None \<notin> set (map cart_id frame) \<and> 30 \<le> today
      \<and> (\<exists>x \<in> set frame. product_title x \<noteq> None)
     \<longrightarrow> (\<exists>out. add_order_date today frame = Inr out
            \<and> map cart_id out = map cart_id frame
            \<and> (\<forall>j x. j < length (spec_sorted_cart_ids out) \<and> x \<in> set out
                  \<and> cart_id x = Some (spec_sorted_cart_ids out ! j)
                 \<longrightarrow> order_date x = Some (isoformat (today - int (j mod 30))))))"
proof (intro conjI impI)
  assume "extract_from_api today carts_payload users_payload = Inr rows
      \<and> i < length (spec_sorted_cart_ids rows) \<and> r \<in> set rows
      \<and> cart_id r = Some (spec_sorted_cart_ids rows ! i)"
  then show "order_date r = Some (isoformat (today - int (i mod 30)))"
    using extract_rank by blast
next
  assume "valid_payloads carts_payload users_payload \<and> 30 \<le> today"
  then show "\<exists>raw df. flatten_rows carts_payload users_payload = Inr raw
            \<and> typed_rows raw = Inr df \<and> None \<notin> set (map cart_id df)
            \<and> (raw \<noteq> [] \<and> schema_fits raw \<and> (\<exists>x \<in> set df. product_title x \<noteq> None)
                 \<longrightarrow> (\<exists>out. extract_from_api today carts_payload users_payload = Inr out
                        \<and> map cart_id out = map cart_id df))"
    using extract_returns by blast
next
  assume a: "None \<notin> set (map cart_id frame) \<and> 30 \<le> today
      \<and> (\<exists>x \<in> set frame. product_title x \<noteq> None)"
  then obtain out where o: "add_order_date today frame = Inr out"
    using add_order_date_total by blast
  have "\<forall>j x. j < length (spec_sorted_cart_ids out) \<and> x \<in> set out
                  \<and> cart_id x = Some (spec_sorted_cart_ids out ! j)
                 \<longrightarrow> order_date x = Some (isoformat (today - int (j mod 30)))"
    using add_order_date_rank [OF o] by blast
  with o add_order_date_cart_ids [OF o]
  show "\<exists>out. add_order_date today frame = Inr out
            \<and> map cart_id out = map cart_id frame
            \<and> (\<forall>j x. j < length (spec_sorted_cart_ids out) \<and> x \<in> set out
                  \<and> cart_id x = Some (spec_sorted_cart_ids out ! j)
                 \<longrightarrow> order_date x = Some (isoformat (today - int (j mod 30))))"
    by blast
qed

theorem order_date_by_rank_among_rows_witness:
  "extract_from_api 739194 carts_513 users_example = Inr [row_cart5, row_cart1, row_cart3]
   \<and> spec_sorted_cart_ids [row_cart5, row_cart1, row_cart3] = [1, 3, 5]
   \<and> order_date row_cart1 = Some (isoformat 739194)
   \<and> order_date row_cart3 = Some (isoformat (739194 - 1))
   \<and> order_date row_cart5 = Some (isoformat (739194 - 2))
   \<and> valid_payloads carts_513 users_example
   \<and> (\<exists>raw df. flatten_rows carts_513 users_example = Inr raw \<and> typed_rows raw = Inr df
         \<and> None \<notin> set (map cart_id df) \<and> raw \<noteq> [] \<and> schema_fits raw
         \<and> (\<exists>x \<in> set df. product_title x \<noteq> None)
         \<and> (\<exists>out. extract_from_api 739194 carts_513 users_example = Inr out
                \<and> map cart_id out = map cart_id df))
   \<and> (\<exists>out. add_order_date 739194 frame_32 = Inr out
         \<and> map cart_id out = map Some (rev [1..32])
         \<and> (\<forall>x \<in> set out. cart_id x = Some 1 \<longrightarrow> order_date x = Some ''2024-11-04'')
         \<and> (\<forall>x \<in> set out. cart_id x = Some 30 \<longrightarrow> order_date x = Some ''2024-10-06'')
         \<and> (\<forall>x \<in> set out. cart_id x = Some 31 \<longrightarrow> order_date x = Some ''2024-11-04'')
         \<and> (\<forall>x \<in> set out. cart_id x = Some 32 \<longrightarrow> order_date x = Some ''2024-11-03''))"
proof -
  let ?rows = "[row_cart5, row_cart1, row_cart3]"
  note rank = order_date_by_rank_among_rows
  have S: "spec_sorted_cart_ids ?rows = [1, 3, 5]" by code_simp
  have ids: "cart_id row_cart5 = Some 5" "cart_id row_cart1 = Some 1" "cart_id row_cart3 = Some 3"
    by (simp_all add: row_cart5_def row_cart1_def row_cart3_def)
  \<comment> \<open>the three carts, end to end\<close>
  have "order_date row_cart1 = Some (isoformat (739194 - int (0 mod 30)))"
    using rank [where today = 739194 and rows = ?rows and i = 0 and r = row_cart1, THEN conjunct1]
      extract_carts_513
    by (simp add: S ids)
  moreover have "order_date row_cart3 = Some (isoformat (739194 - int (1 mod 30)))"
    using rank [where today = 739194 and rows = ?rows and i = 1 and r = row_cart3, THEN conjunct1]
      extract_carts_513
    by (simp add: S ids)
  moreover have "order_date row_cart5 = Some (isoformat (739194 - int (2 mod 30)))"
    using rank [where today = 739194 and rows = ?rows and i = 2 and r = row_cart5, THEN conjunct1]
      extract_carts_513
    by (simp add: S ids)
  ultimately have A: "order_date row_cart1 = Some (isoformat 739194)"
    "order_date row_cart3 = Some (isoformat (739194 - 1))"
    "order_date row_cart5 = Some (isoformat (739194 - 2))"
    by simp_all
  \<comment> \<open>the payloads are of the schema, so the three carts are flattened and typed\<close>
  have V: "valid_payloads carts_513 users_example" by code_simp
  from rank [where today = 739194 and carts_payload = carts_513 and users_payload = users_example,
      THEN conjunct2, THEN conjunct1] V
  obtain raw df where
    raw: "flatten_rows carts_513 users_example = Inr raw" and
    df: "typed_rows raw = Inr df" and
    nn: "None \<notin> set (map cart_id df)" and
    ret: "raw \<noteq> [] \<and> schema_fits raw \<and> (\<exists>x \<in> set df. product_title x \<noteq> None)
           \<longrightarrow> (\<exists>out. extract_from_api 739194 carts_513 users_example = Inr out
                  \<and> map cart_id out = map cart_id df)"
    by auto
  from extract_carts_513 raw have
    rest: "(if raw = [] then Inr [] else and_then (data_frame raw) (add_order_date 739194)) = Inr ?rows"
    by (simp add: extract_from_api_def and_then_Inr_simp)
  then have ne: "raw \<noteq> []" by (auto split: if_splits)
  with rest obtain df' where df': "data_frame raw = Inr df'" and
    out: "add_order_date 739194 df' = Inr ?rows"
    by simp (elim and_then_InrE)
  from df' df have fits: "schema_fits raw" and same: "df' = df"
    by (auto simp: data_frame_def and_then_Inr_simp split: if_splits)
  from out have "\<not> list_all (\<lambda>r. product_title r = None) df"
    unfolding add_order_date_def same by (elim and_then_InrE) (simp split: if_splits)
  then have t: "\<exists>x \<in> set df. product_title x \<noteq> None" by (auto simp: list_all_iff)
  from ret ne fits t have "\<exists>out. extract_from_api 739194 carts_513 users_example = Inr out
          \<and> map cart_id out = map cart_id df"
    by blast
  with raw df nn ne fits t have B: "\<exists>raw df. flatten_rows carts_513 users_example = Inr raw
         \<and> typed_rows raw = Inr df
         \<and> None \<notin> set (map cart_id df) \<and> raw \<noteq> [] \<and> schema_fits raw
         \<and> (\<exists>x \<in> set df. product_title x \<noteq> None)
         \<and> (\<exists>out. extract_from_api 739194 carts_513 users_example = Inr out
                \<and> map cart_id out = map cart_id df)"
    by blast
  \<comment> \<open>thirty-two carts: the ranks 30 and 31 start the window again\<close>
  have nn32: "None \<notin> set (map cart_id frame_32)" by (simp add: frame_32_ids)
  from rank [where today = 739194 and frame = frame_32, THEN conjunct2, THEN conjunct2]
    nn32 frame_32_title
  obtain out where
    o: "add_order_date 739194 frame_32 = Inr out" and
    c: "map cart_id out = map cart_id frame_32" and
    rk: "\<And>j x. j < length (spec_sorted_cart_ids out) \<Longrightarrow> x \<in> set out \<Longrightarrow>
           cart_id x = Some (spec_sorted_cart_ids out ! j) \<Longrightarrow>
           order_date x = Some (isoformat (739194 - int (j mod 30)))"
    by auto
  have S32: "spec_sorted_cart_ids out = [1..32]"
    by (simp only: spec_sorted_cart_ids_def c frame_32_ids sorted_ids_32)
  have d1: "order_date x = Some ''2024-11-04''" if "x \<in> set out" "cart_id x = Some 1" for x
    using rk [of 0 x] that by (simp add: S32 nth_ids_32 iso_32)
  have d30: "order_date x = Some ''2024-10-06''" if "x \<in> set out" "cart_id x = Some 30" for x
    using rk [of 29 x] that by (simp add: S32 nth_ids_32 iso_32)
  have d31: "order_date x = Some ''2024-11-04''" if "x \<in> set out" "cart_id x = Some 31" for x
    using rk [of 30 x] that by (simp add: S32 nth_ids_32 iso_32)
  have d32: "order_date x = Some ''2024-11-03''" if "x \<in> set out" "cart_id x = Some 32" for x
    using rk [of 31 x] that by (simp add: S32 nth_ids_32 iso_32)
  from o c d1 d30 d31 d32 have C: "\<exists>out. add_order_date 739194 frame_32 = Inr out
         \<and> map cart_id out = map Some (rev [1..32])
         \<and> (\<forall>x \<in> set out. cart_id x = Some 1 \<longrightarrow> order_date x = Some ''2024-11-04'')
         \<and> (\<forall>x \<in> set out. cart_id x = Some 30 \<longrightarrow> order_date x = Some ''2024-10-06'')
         \<and> (\<forall>x \<in> set out. cart_id x = Some 31 \<longrightarrow> order_date x = Some ''2024-11-04'')
         \<and> (\<forall>x \<in> set out. cart_id x = Some 32 \<longrightarrow> order_date x = Some ''2024-11-03'')"
    by (auto simp: frame_32_ids)
  from extract_carts_513 S A V B C show ?thesis by blast
qed

text \<open>
  Claim C10. For a row whose \<open>user_id\<close> is found in the user map, let \<open>f\<close> be the
  user's \<open>firstName\<close>, or the empty string when the field is absent, and \<open>l\<close> the same
  for \<open>lastName\<close>. The Flattener sets \<open>first_name = f\<close> and \<open>last_name = l\<close> (text,
  not null) and \<open>customer_name\<close> to the stripped concatenation of \<open>f\<close>, a blank and
  \<open>l\<close>, which is the empty string when both are absent. The Normalizer returns on the
  frame and, imputing only nulls, leaves the three cells as they are.
\<close>

theorem absent_names_stay_empty:
  assumes e: "extract_from_api today carts_payload users_payload = Inr rows"
      and u1: "dict_get users_payload ''users'' (JArr []) = Inr users"
      and u2: "py_iter users = Inr us"
      and u3: "build_user_map [] us = Inr user_map"
      and r: "r \<in> set rows"
      and m: "map_of user_map (cell_json (user_id r)) = Some (JObj uf)"
      and f: "map_of uf ''firstName'' = None \<and> f = [] \<or> map_of uf ''firstName'' = Some (JStr f)"
      and l: "map_of uf ''lastName'' = None \<and> l = [] \<or> map_of uf ''lastName'' = Some (JStr l)"
  shows "first_name r = Some f \<and> last_name r = Some l
       \<and> customer_name r = Some (py_strip (f @ '' '' @ l))
       \<and> clean_and_transform_frame rows = Inr (clean_and_transform rows)
       \<and> first_name (transform_row r) = Some f \<and> last_name (transform_row r) = Some l
       \<and> customer_name (transform_row r) = Some (py_strip (f @ '' '' @ l))
       \<and> (map_of uf ''firstName'' = None \<longrightarrow>
             first_name r = Some [] \<and> first_name (transform_row r) = Some [])
       \<and> (map_of uf ''lastName'' = None \<longrightarrow>
             last_name r = Some [] \<and> last_name (transform_row r) = Some [])
       \<and> (map_of uf ''firstName'' = None \<and> map_of uf ''lastName'' = None \<longrightarrow>
             customer_name r = Some [] \<and> customer_name (transform_row r) = Some [])"
proof -
  from extract_user_cells [OF e u1 u2 u3 r] m obtain ucols where
    uc: "user_columns (Some (JObj uf)) = Inr ucols" and
    fn: "text_cell (get ucols ''first_name'') = Inr (first_name r)" and
    ln: "text_cell (get ucols ''last_name'') = Inr (last_name r)" and
    cn: "text_cell (get ucols ''customer_name'') = Inr (customer_name r)"
    by auto
  from build_user_map_values [OF u3 m] have ne: "uf \<noteq> []" by auto
  from uc ne obtain f' l' where
    f': "py_or (get uf ''firstName'') (JStr []) = JStr f'" and
    l': "py_or (get uf ''lastName'') (JStr []) = JStr l'" and
    cells: "get ucols ''first_name'' = JStr f'" "get ucols ''last_name'' = JStr l'"
      "get ucols ''customer_name'' = JStr (py_strip (f' @ '' '' @ l'))"
    by (rule user_columns_SomeE)
  from f' name_field [OF f] have ff: "f' = f" by simp
  from l' name_field [OF l] have ll: "l' = l" by simp
  from fn ln cn cells have
    first: "first_name r = Some f" and last: "last_name r = Some l" and
    name: "customer_name r = Some (py_strip (f @ '' '' @ l))"
    by (simp_all add: ff ll)
  have kept: "first_name (transform_row r) = Some f" "last_name (transform_row r) = Some l"
    "customer_name (transform_row r) = Some (py_strip (f @ '' '' @ l))"
    by (simp_all add: names_transform_row customer_name_transform_row first last name
        fill_null_def py_strip_idem)
  from r name have "\<exists>x \<in> set rows. customer_name x \<noteq> None" by force
  with extract_titles [OF e r]
  have frame: "clean_and_transform_frame rows = Inr (clean_and_transform rows)"
    by (rule frame_returns)
  have f0: "f = []" if "map_of uf ''firstName'' = None"
    using f that by simp
  have l0: "l = []" if "map_of uf ''lastName'' = None"
    using l that by simp
  have blank: "py_strip ([] @ '' '' @ []) = []"
    by (simp add: py_strip_def trim_def py_isspace_def)
  show ?thesis
  proof (intro conjI impI)
    show "clean_and_transform_frame rows = Inr (clean_and_transform rows)" by (rule frame)
  qed (use f0 l0 first last name kept blank in simp_all)
qed

theorem absent_names_stay_empty_witness:
  "extract_from_api 739194 carts_513 users_example = Inr [row_cart5, row_cart1, row_cart3]
   \<and> extract_from_api 739194 carts_roe users_three = Inr [row_cart7]
   \<and> first_name row_cart3 = Some [] \<and> last_name row_cart3 = Some []
   \<and> customer_name row_cart3 = Some []
   \<and> customer_name (transform_row row_cart3) = Some []
   \<and> first_name row_cart7 = Some [] \<and> last_name row_cart7 = Some ''Roe''
   \<and> customer_name row_cart7 = Some ''Roe''
   \<and> first_name (transform_row row_cart7) = Some []
   \<and> customer_name (transform_row row_cart7) = Some ''Roe''
   \<and> first_name row_cart5 = Some ''Jo'' \<and> last_name row_cart5 = Some ''Doe''
   \<and> customer_name row_cart5 = Some ''Jo Doe''
   \<and> customer_name (transform_row row_cart5) = Some ''Jo Doe''
   \<and> clean_and_transform_frame [row_cart5, row_cart1, row_cart3]
        = Inr (clean_and_transform [row_cart5, row_cart1, row_cart3])"
proof -
  have r3: "row_cart3 \<in> set [row_cart5, row_cart1, row_cart3]"
    and r5: "row_cart5 \<in> set [row_cart5, row_cart1, row_cart3]"
    and r7: "row_cart7 \<in> set [row_cart7]"
    by simp_all
  have m3: "map_of [(JInt 11, user_11), (JInt 10, user_10)] (cell_json (user_id row_cart3))
      = Some (JObj [(''id'', JInt 11), (''email'', JStr ''anon@example.com'')])"
    by (simp add: row_cart3_def cell_json_def user_11_def)
  have m5: "map_of [(JInt 11, user_11), (JInt 10, user_10)] (cell_json (user_id row_cart5))
      = Some (JObj [(''id'', JInt 10), (''firstName'', JStr ''Jo''), (''lastName'', JStr ''Doe''),
           (''email'', JStr ''jo@example.com''),
           (''address'', JObj [(''city'', JStr ''Pune'')]),
           (''age'', JInt 31), (''gender'', JStr ''female'')])"
    by (simp add: row_cart5_def cell_json_def user_10_def)
  have m7: "map_of [(JInt 12, user_12), (JInt 11, user_11), (JInt 10, user_10)]
        (cell_json (user_id row_cart7))
      = Some (JObj [(''id'', JInt 12), (''lastName'', JStr ''Roe'')])"
    by (simp add: row_cart7_def row_cart5_def cell_json_def user_12_def)
  have s: "py_strip '' '' = []" "py_strip '' Roe'' = ''Roe''"
    "py_strip ''Jo Doe'' = ''Jo Doe''"
    by code_simp+
  note a3 = absent_names_stay_empty [OF extract_carts_513 users_example_map r3 m3,
      where f = "[]" and l = "[]"]
  note a5 = absent_names_stay_empty [OF extract_carts_513 users_example_map r5 m5,
      where f = "''Jo''" and l = "''Doe''"]
  note a7 = absent_names_stay_empty [OF extract_carts_roe users_three_map r7 m7,
      where f = "[]" and l = "''Roe''"]
  from a3 have "first_name row_cart3 = Some [] \<and> last_name row_cart3 = Some []
      \<and> customer_name row_cart3 = Some [] \<and> customer_name (transform_row row_cart3) = Some []"
    by (simp add: s)
  moreover from a7 have "first_name row_cart7 = Some [] \<and> last_name row_cart7 = Some ''Roe''
      \<and> customer_name row_cart7 = Some ''Roe''
      \<and> first_name (transform_row row_cart7) = Some []
      \<and> customer_name (transform_row row_cart7) = Some ''Roe''"
    by (simp add: s)
  moreover from a5 have "first_name row_cart5 = Some ''Jo'' \<and> last_name row_cart5 = Some ''Doe''
      \<and> customer_name row_cart5 = Some ''Jo Doe''
      \<and> customer_name (transform_row row_cart5) = Some ''Jo Doe''
      \<and> clean_and_transform_frame [row_cart5, row_cart1, row_cart3]
        = Inr (clean_and_transform [row_cart5, row_cart1, row_cart3])"
    by (simp add: s)
  ultimately show ?thesis using extract_carts_513 extract_carts_roe by blast
qed




section \<open>Properties of the Aggregator\<close>

lemma somes_pairs_set: "set [(k, v). (Some k, v) \<leftarrow> xs] = {(k, v). (Some k, v) \<in> set xs}"
  by (induction xs) (auto split: option.splits)

lemma set_order_by_asc: "set (order_by_asc xs) = set xs"
proof -
  have "set (map (\<lambda>(k, v). (Some k, v)) (sort_key fst [(k, v). (Some k, v) \<leftarrow> xs]))
      = {kv \<in> set xs. fst kv \<noteq> None}"
    by (simp only: set_map set_sort somes_pairs_set) force
  then show ?thesis by (auto simp: order_by_asc_def)
qed

lemma set_order_by_desc: "set (order_by_desc f xs) = set xs"
  by (auto simp: order_by_desc_def)

lemma length_order_by_desc: "length (order_by_desc f xs) = length xs"
proof -
  have "length (filter (\<lambda>x. f x = None) xs) + length (filter (\<lambda>x. \<not> f x = None) xs) = length xs"
    by (rule sum_length_filter_compl)
  then show ?thesis by (simp add: order_by_desc_def del: not_None_eq)
qed

lemma set_group_by:
  "set (group_by key rows) = (\<lambda>k. (k, filter (\<lambda>r. key r = k) rows)) ` key ` set rows"
  by (simp add: group_by_def)

lemma length_group_by: "length (group_by key rows) = card (key ` set rows)"
  by (simp add: group_by_def length_remdups_card_conv)


lemma sorted_neg_rev: "sorted (map uminus (vs :: real list)) \<Longrightarrow> sorted (rev vs)"
  by (simp add: sorted_map sorted_wrt_rev)

lemma order_by_desc_sorted:
  "\<exists>vs k. map f (order_by_desc f xs) = map Some vs @ replicate k None \<and> sorted (rev vs)"
proof -
  define g where "g = (\<lambda>x. case f x of Some v \<Rightarrow> - v | None \<Rightarrow> 0)"
  define A where "A = sort_key g (filter (\<lambda>x. f x \<noteq> None) xs)"
  define B where "B = filter (\<lambda>x. f x = None) xs"
  define vs where "vs = map (\<lambda>x. case f x of Some v \<Rightarrow> v | None \<Rightarrow> 0) A"
  have nn: "f x \<noteq> None" if "x \<in> set A" for x
    using that by (simp add: A_def)
  have a: "map f A = map Some vs"
    unfolding vs_def using nn by (auto split: option.splits)
  have b: "map f B = replicate (length B) None"
    unfolding B_def by (induction xs) simp_all
  have "map g A = map uminus vs"
    unfolding vs_def g_def using nn by (auto split: option.splits)
  moreover have "sorted (map g A)" unfolding A_def by (rule sorted_sort_key)
  ultimately have "sorted (rev vs)" by (simp add: sorted_neg_rev)
  moreover have "order_by_desc f xs = A @ B"
    by (simp add: order_by_desc_def A_def B_def g_def)
  ultimately show ?thesis using a b by auto
qed

lemma sql_sum_somes:
  "sql_sum xs = (if [v. Some v \<leftarrow> xs] = [] then None else Some (sum_list [v. Some v \<leftarrow> xs]))"
proof -
  define L where "L = [v. Some v \<leftarrow> xs]"
  have "sql_sum xs = (case L of [] \<Rightarrow> None | y # ys \<Rightarrow> Some (sum_list (y # ys)))"
    unfolding L_def by (simp only: sql_sum_def)
  also have "\<dots> = (if L = [] then None else Some (sum_list L))"
    by (cases L) simp_all
  finally show ?thesis unfolding L_def .
qed

lemma count_distinct_card: "count_distinct xs = card {c. Some c \<in> set xs}"
proof -
  have "set [c. Some c \<leftarrow> xs] = {c. Some c \<in> set xs}" by (rule somes_set)
  then show ?thesis by (simp add: count_distinct_def length_remdups_card_conv)
qed

lemma length_order_by_asc: "length (order_by_asc xs) = length xs"
proof -
  have "length [(k, v). (Some k, v) \<leftarrow> xs] = length (filter (\<lambda>kv. \<not> fst kv = None) xs)"
    by (induction xs) (auto split: option.splits)
  moreover have "length (filter (\<lambda>kv. fst kv = None) xs)
      + length (filter (\<lambda>kv. \<not> fst kv = None) xs) = length xs"
    by (rule sum_length_filter_compl)
  ultimately show ?thesis by (simp add: order_by_asc_def del: not_None_eq)
qed

lemma daily_sales_set:
  "set (daily_sales strptime sales) =
     (\<lambda>d. (d, sql_sum (map total_amount (filter (\<lambda>x. parsed_order_date strptime x = d) sales))))
       ` parsed_order_date strptime ` set sales"
  by (simp add: daily_sales_def set_order_by_asc set_group_by image_image)

lemma customer_summary_set:
  "set (customer_summary sales) =
     (\<lambda>k. \<lparr> customer_id = fst k, customer_name_out = display_name (snd k),
              total_orders = count_distinct (map cart_id (filter (\<lambda>r. (user_id r, customer_name r) = k) sales)),
              total_spent = sql_sum (map total_amount (filter (\<lambda>r. (user_id r, customer_name r) = k) sales)) \<rparr>)
       ` (\<lambda>r. (user_id r, customer_name r)) ` set sales"
  by (simp add: customer_summary_def set_order_by_desc set_group_by image_image)

lemma group_cart_ids:
  "{c. Some c \<in> set (map cart_id (filter (\<lambda>r. key r = k) sales))}
     = {c. \<exists>r \<in> set sales. key r = k \<and> cart_id r = Some c}"
  by (auto simp: image_iff)

subsection \<open>The customer summary on frames of the pipeline\<close>

lemma extract_carts_orders: "extract_from_api 739194 carts_orders users_example = Inr rows_orders"
  by code_simp

lemma summary_orders:
  "customer_summary (clean_and_transform rows_orders) =
     [\<lparr>customer_id = Some 10, customer_name_out = ''Jo Doe'', total_orders = 2, total_spent = Some 160\<rparr>,
      \<lparr>customer_id = Some 11, customer_name_out = ''No Data'', total_orders = 1, total_spent = Some 40\<rparr>,
      \<lparr>customer_id = Some 99, customer_name_out = ''No Data'', total_orders = 1, total_spent = Some 40\<rparr>]"
  by code_simp


lemma flatten_rows_user_map:
  assumes "flatten_rows carts_payload users_payload = Inr raw"
  obtains users us user_map where
    "dict_get users_payload ''users'' (JArr []) = Inr users"
    "py_iter users = Inr us"
    "build_user_map [] us = Inr user_map"
  using assms unfolding flatten_rows_def by (elim and_then_InrE) blast

lemma pipeline_name_by_user:
  assumes e: "extract_from_api today carts_payload users_payload = Inr rows"
      and a: "a \<in> set rows" and b: "b \<in> set rows"
      and u: "user_id a = user_id b"
  shows "customer_name a = customer_name b"
proof -
  from e obtain raw where "flatten_rows carts_payload users_payload = Inr raw"
    unfolding extract_from_api_def by (rule and_then_InrE)
  then obtain users us user_map where
    u1: "dict_get users_payload ''users'' (JArr []) = Inr users" and
    u2: "py_iter users = Inr us" and
    u3: "build_user_map [] us = Inr user_map"
    by (rule flatten_rows_user_map)
  from extract_user_cells [OF e u1 u2 u3 a] obtain ca where
    ca: "user_columns (map_of user_map (cell_json (user_id a))) = Inr ca"
      "text_cell (get ca ''customer_name'') = Inr (customer_name a)"
    by blast
  from extract_user_cells [OF e u1 u2 u3 b] obtain cb where
    cb: "user_columns (map_of user_map (cell_json (user_id b))) = Inr cb"
      "text_cell (get cb ''customer_name'') = Inr (customer_name b)"
    by blast
  from ca(1) cb(1) u have "ca = cb" by simp
  with ca(2) cb(2) show ?thesis by simp
qed

lemma user_id_transform_row: "user_id (transform_row r) = user_id r"
  by (simp add: row_defs)

lemma normalized_name_by_user:
  assumes e: "extract_from_api today carts_payload users_payload = Inr rows"
      and x: "x \<in> set (clean_and_transform rows)" and y: "y \<in> set (clean_and_transform rows)"
      and u: "user_id x = user_id y"
  shows "customer_name x = customer_name y"
proof -
  from x obtain a where a: "a \<in> set rows" "x = transform_row a"
    by (auto simp: clean_and_transform_filter)
  from y obtain b where b: "b \<in> set rows" "y = transform_row b"
    by (auto simp: clean_and_transform_filter)
  from u a(2) b(2) have "user_id a = user_id b" by (simp add: user_id_transform_row)
  from pipeline_name_by_user [OF e a(1) b(1) this] a(2) b(2)
  show ?thesis by (simp add: customer_name_transform_row)
qed

lemma spec_summary_key_stored:
  "spec_summary_key r = (user_id r, display_name (customer_name r))"
  by (simp add: spec_summary_key_def display_name_def)

lemma same_group:
  assumes dep: "\<And>x y. x \<in> set sales \<Longrightarrow> y \<in> set sales \<Longrightarrow> user_id x = user_id y
                 \<Longrightarrow> customer_name x = customer_name y"
      and x: "x \<in> set sales" and r: "r \<in> set sales"
  shows "((user_id r, customer_name r) = (user_id x, customer_name x))
       = (spec_summary_key r = spec_summary_key x)"
  using dep [OF r x] by (auto simp: spec_summary_key_stored)


lemma customer_summary_stored_groups:
  "set (customer_summary sales) =
     (\<lambda>k. \<lparr> customer_id = fst k, customer_name_out = display_name (snd k),
              total_orders = card {c. \<exists>r \<in> set sales. (user_id r, customer_name r) = k \<and> cart_id r = Some c},
              total_spent =
                (if [v. Some v \<leftarrow> map total_amount (filter (\<lambda>r. (user_id r, customer_name r) = k) sales)] = []
                 then None
                 else Some (sum_list [v. Some v \<leftarrow> map total_amount (filter (\<lambda>r. (user_id r, customer_name r) = k) sales)])) \<rparr>)
       ` (\<lambda>r. (user_id r, customer_name r)) ` set sales"
  unfolding customer_summary_set count_distinct_card group_cart_ids sql_sum_somes ..

lemma customer_summary_by_displayed_name:
  assumes dep: "\<And>x y. x \<in> set sales \<Longrightarrow> y \<in> set sales \<Longrightarrow> user_id x = user_id y
                 \<Longrightarrow> customer_name x = customer_name y"
  shows "set (customer_summary sales) =
     (\<lambda>k. \<lparr> customer_id = fst k, customer_name_out = snd k,
              total_orders = card {c. \<exists>r \<in> set sales. spec_summary_key r = k \<and> cart_id r = Some c},
              total_spent =
                (if [v. Some v \<leftarrow> map total_amount (filter (\<lambda>r. spec_summary_key r = k) sales)] = []
                 then None
                 else Some (sum_list [v. Some v \<leftarrow> map total_amount (filter (\<lambda>r. spec_summary_key r = k) sales)])) \<rparr>)
       ` spec_summary_key ` set sales"
    (is "_ = ?G ` _ ` _")
proof -
  let ?key = "\<lambda>r. (user_id r, customer_name r)"
  let ?F = "\<lambda>k. \<lparr> customer_id = fst k, customer_name_out = display_name (snd k),
              total_orders = card {c. \<exists>r \<in> set sales. ?key r = k \<and> cart_id r = Some c},
              total_spent =
                (if [v. Some v \<leftarrow> map total_amount (filter (\<lambda>r. ?key r = k) sales)] = []
                 then None
                 else Some (sum_list [v. Some v \<leftarrow> map total_amount (filter (\<lambda>r. ?key r = k) sales)])) \<rparr>"
  have eq: "?F (?key x) = ?G (spec_summary_key x)" if x: "x \<in> set sales" for x
  proof -
    have g: "(?key r = ?key x) = (spec_summary_key r = spec_summary_key x)" if "r \<in> set sales" for r
      using dep x that by (rule same_group)
    have 1: "{c. \<exists>r \<in> set sales. ?key r = ?key x \<and> cart_id r = Some c}
        = {c. \<exists>r \<in> set sales. spec_summary_key r = spec_summary_key x \<and> cart_id r = Some c}"
      using g by blast
    have 2: "filter (\<lambda>r. ?key r = ?key x) sales
        = filter (\<lambda>r. spec_summary_key r = spec_summary_key x) sales"
      using g by (intro filter_cong) auto
    have 3: "fst (?key x) = fst (spec_summary_key x)"
      "display_name (snd (?key x)) = snd (spec_summary_key x)"
      by (simp_all add: spec_summary_key_stored)
    show ?thesis unfolding 1 2 3 ..
  qed
  have "set (customer_summary sales) = (\<lambda>x. ?F (?key x)) ` set sales"
    unfolding customer_summary_stored_groups image_image ..
  also have "\<dots> = (\<lambda>x. ?G (spec_summary_key x)) ` set sales"
  proof (rule image_cong)
    show "set sales = set sales" ..
  next
    fix x
    assume "x \<in> set sales"
    then show "?F (?key x) = ?G (spec_summary_key x)" by (rule eq)
  qed
  also have "\<dots> = ?G ` spec_summary_key ` set sales"
    unfolding image_image ..
  finally show ?thesis .
qed

lemma customer_summary_length_displayed:
  assumes dep: "\<And>x y. x \<in> set sales \<Longrightarrow> y \<in> set sales \<Longrightarrow> user_id x = user_id y
                 \<Longrightarrow> customer_name x = customer_name y"
  shows "length (customer_summary sales) = card (spec_summary_key ` set sales)"
proof -
  let ?key = "\<lambda>r. (user_id r, customer_name r)"
  let ?h = "\<lambda>k :: int option \<times> string option. (fst k, display_name (snd k))"
  have "inj_on ?h (?key ` set sales)"
  proof (rule inj_onI)
    fix p q
    assume "p \<in> ?key ` set sales" "q \<in> ?key ` set sales" "?h p = ?h q"
    then obtain x y where x: "x \<in> set sales" "p = ?key x" and y: "y \<in> set sales" "q = ?key y"
      and "user_id x = user_id y"
      by auto
    with dep [of x y] show "p = q" by simp
  qed
  then have "card (?h ` ?key ` set sales) = card (?key ` set sales)" by (rule card_image)
  moreover have "?h ` ?key ` set sales = spec_summary_key ` set sales"
    by (simp add: image_image spec_summary_key_stored)
  moreover have "length (customer_summary sales) = card (?key ` set sales)"
    by (simp add: customer_summary_def length_order_by_desc length_group_by)
  ultimately show ?thesis by simp
qed

text \<open>
  No frame of the Flattener gives one \<open>user_id\<close> two names. On a frame that does, the
  query forms its groups on the stored name and shows both as \<open>"No Data"\<close>.
\<close>

lemma customer_summary_two_names:
  "customer_summary (clean_and_transform [blank_name_row, null_name_row]) =
     [\<lparr>customer_id = Some 10, customer_name_out = ''No Data'', total_orders = 1, total_spent = Some 40\<rparr>,
      \<lparr>customer_id = Some 10, customer_name_out = ''No Data'', total_orders = 1, total_spent = Some 12\<rparr>]"
  by code_simp

section \<open>Claims about the Aggregator\<close>

text \<open>
  Claim C4 as stated (a row whose \<open>order_date\<close> does not parse contributes to no
  group of \<open>daily_sales\<close>) does not hold: the date becomes null, \<open>GROUP BY\<close> keeps
  the null dates as a group, and the row's amount is summed there.
\<close>

theorem daily_sales_counterexample:
  "daily_sales strptime_ymd (clean_and_transform [shirt_row, bad_date_row])
     = [(Some 739194, Some 40), (None, Some 12)]"
  by code_simp

text \<open>
  Claim C4, amended. A row whose \<open>order_date\<close> string does not parse does not make the
  aggregation fail: its date is null, and \<open>daily_sales\<close> has a row with the null date
  whose sum is taken over all rows with a null parsed date, this row among them. The
  table has one row for each distinct parsed date, the null date included.
\<close>

theorem unparsed_dates_form_null_group:
  fixes strptime :: "string \<Rightarrow> 'd::linorder option"
  assumes "r \<in> set sales" and "order_date r = Some s" and "strptime s = None"
  shows "(None, sql_sum (map total_amount (filter (\<lambda>x. parsed_order_date strptime x = None) sales)))
           \<in> set (daily_sales strptime sales)
       \<and> total_amount r \<in> set (map total_amount (filter (\<lambda>x. parsed_order_date strptime x = None) sales))
       \<and> length (daily_sales strptime sales) = card (parsed_order_date strptime ` set sales)"
proof -
  from assms(2,3) have p: "parsed_order_date strptime r = None"
    by (simp add: parsed_order_date_def)
  with assms(1) have "None \<in> parsed_order_date strptime ` set sales" by force
  then have a: "(None, sql_sum (map total_amount (filter (\<lambda>x. parsed_order_date strptime x = None) sales)))
           \<in> set (daily_sales strptime sales)"
    unfolding daily_sales_set by (rule imageI)
  from assms(1) p have b: "total_amount r \<in> set (map total_amount (filter (\<lambda>x. parsed_order_date strptime x = None) sales))"
    by simp
  have c: "length (daily_sales strptime sales) = card (parsed_order_date strptime ` set sales)"
    by (simp add: daily_sales_def length_order_by_asc length_group_by)
  from a b c show ?thesis by simp
qed

theorem unparsed_dates_form_null_group_witness:
  "transform_row bad_date_row \<in> set (clean_and_transform [shirt_row, bad_date_row])
   \<and> order_date (transform_row bad_date_row) = Some ''04/11/2024''
   \<and> strptime_ymd ''04/11/2024'' = None
   \<and> (None, Some 12) \<in> set (daily_sales strptime_ymd (clean_and_transform [shirt_row, bad_date_row]))
   \<and> length (daily_sales strptime_ymd (clean_and_transform [shirt_row, bad_date_row])) = 2"
proof -
  let ?sales = "clean_and_transform [shirt_row, bad_date_row]"
  have r: "transform_row bad_date_row \<in> set ?sales"
    by (simp add: clean_and_transform_filter shirt_row_def hat_row_def bad_date_row_def)
  have d: "order_date (transform_row bad_date_row) = Some ''04/11/2024''"
    by (simp add: row_defs bad_date_row_def)
  have s: "strptime_ymd ''04/11/2024'' = None" by code_simp
  have v: "sql_sum (map total_amount (filter (\<lambda>x. parsed_order_date strptime_ymd x = None) ?sales)) = Some 12"
    by code_simp
  have n: "card (parsed_order_date strptime_ymd ` set ?sales) = 2"
    by code_simp
  from unparsed_dates_form_null_group [where strptime = strptime_ymd, OF r d s] r d s show ?thesis
    by (simp only: v n)
qed

text \<open>
  Claim C7. On every frame that the Normalizer returns for rows of the Flattener,
  \<open>customer_summary\<close> has exactly one row for each distinct pair of \<open>user_id\<close> and
  customer name after the substitution of \<open>"No Data"\<close> for a null or empty name. The
  row shows the pair; \<open>total_orders\<close> is the number of distinct cart identifiers among
  the rows of the pair (not the number of rows: a cart with three products counts once),
  \<open>total_spent\<close> the sum of their \<open>total_amount\<close> (nulls skipped, null when there is
  none). The table is in descending order of \<open>total_spent\<close>, null totals last.
\<close>

theorem customer_summary_by_customer:
  assumes e: "extract_from_api today carts_payload users_payload = Inr rows"
      and n: "clean_and_transform_frame rows = Inr sales"
  shows "set (customer_summary sales) =
     (\<lambda>k. \<lparr> customer_id = fst k, customer_name_out = snd k,
              total_orders = card {c. \<exists>r \<in> set sales. spec_summary_key r = k \<and> cart_id r = Some c},
              total_spent =
                (if [v. Some v \<leftarrow> map total_amount (filter (\<lambda>r. spec_summary_key r = k) sales)] = []
                 then None
                 else Some (sum_list [v. Some v \<leftarrow> map total_amount (filter (\<lambda>r. spec_summary_key r = k) sales)])) \<rparr>)
       ` spec_summary_key ` set sales
   \<and> length (customer_summary sales) = card (spec_summary_key ` set sales)
   \<and> (\<exists>vs n. map total_spent (customer_summary sales) = map Some vs @ replicate n None
          \<and> sorted (rev vs))"
proof -
  from n have s: "sales = clean_and_transform rows"
    by (simp add: clean_and_transform_frame_def split: if_splits)
  have dep: "customer_name x = customer_name y"
    if "x \<in> set sales" "y \<in> set sales" "user_id x = user_id y" for x y
    using e that unfolding s by (rule normalized_name_by_user)
  note a = customer_summary_by_displayed_name [of sales, OF dep]
  note b = customer_summary_length_displayed [of sales, OF dep]
  have c: "\<exists>vs n. map total_spent (customer_summary sales) = map Some vs @ replicate n None
          \<and> sorted (rev vs)"
    unfolding customer_summary_def by (rule order_by_desc_sorted)
  from a b c show ?thesis by blast
qed

theorem customer_summary_by_customer_witness:
  "extract_from_api 739194 carts_orders users_example = Inr rows_orders
   \<and> clean_and_transform_frame rows_orders = Inr (clean_and_transform rows_orders)
   \<and> customer_summary (clean_and_transform rows_orders) =
       [\<lparr>customer_id = Some 10, customer_name_out = ''Jo Doe'', total_orders = 2, total_spent = Some 160\<rparr>,
        \<lparr>customer_id = Some 11, customer_name_out = ''No Data'', total_orders = 1, total_spent = Some 40\<rparr>,
        \<lparr>customer_id = Some 99, customer_name_out = ''No Data'', total_orders = 1, total_spent = Some 40\<rparr>]
   \<and> length (filter (\<lambda>r. cart_id r = Some 1) (clean_and_transform rows_orders)) = 3
   \<and> card (spec_summary_key ` set (clean_and_transform rows_orders)) = 3"
proof -
  have f: "clean_and_transform_frame rows_orders = Inr (clean_and_transform rows_orders)"
    by code_simp
  have t: "length (filter (\<lambda>r. cart_id r = Some 1) (clean_and_transform rows_orders)) = 3"
    by code_simp
  from customer_summary_by_customer [OF extract_carts_orders f]
  have "length (customer_summary (clean_and_transform rows_orders))
      = card (spec_summary_key ` set (clean_and_transform rows_orders))"
    by blast
  with extract_carts_orders f t summary_orders show ?thesis by simp
qed

end
